theory Spec2Isabelle
  imports Complex_Main
begin

section \<open>Values of the Python program\<close>

text \<open>
  The documents the program handles are what \<^verbatim>\<open>json.loads\<close> returns and what
  \<^verbatim>\<open>json.dumps\<close> accepts: \<^verbatim>\<open>None\<close>, booleans, integers, strings, lists and
  dictionaries with string keys. A dictionary is an association list in insertion order,
  as a Python \<^verbatim>\<open>dict\<close> is; the dictionaries the program builds itself have distinct
  keys. Numbers inside the analysers' payloads are never inspected by the program and are
  integers here.
\<close>

datatype json =
    JNull
  | JBool bool
  | JInt int
  | JStr string
  | JArr "json list"
  | JObj "(string \<times> json) list"

text \<open>
  The exceptions that occur, by class, with the message \<^verbatim>\<open>str(e)\<close> gives.
  \<open>HTTPException\<close> is the one class the web framework answers with a status code of
  the program's choosing; the program never raises it.
\<close>

datatype exn_class =
    FileNotFoundError
  | UnicodeDecodeError
  | OSError
  | AttributeError
  | TypeError
  | ValueError
  | BadZipFile
  | IntegrityError
  | HTTPException nat

datatype py_exn = Exn exn_class string

fun str_exn :: "py_exn \<Rightarrow> string" where
  "str_exn (Exn c msg) = msg"

subsection \<open>\<^verbatim>\<open>dict.get\<close>, \<^verbatim>\<open>len\<close> and iteration\<close>

text \<open>
  \<^verbatim>\<open>d.get(k, default)\<close> exists on dictionaries only: on a list, a string, a number or
  \<^verbatim>\<open>None\<close> the attribute lookup raises \<^verbatim>\<open>AttributeError\<close>.
\<close>

fun py_get :: "json \<Rightarrow> string \<Rightarrow> json \<Rightarrow> py_exn + json" where
  "py_get (JObj kvs) k dflt = Inr (case map_of kvs k of Some v \<Rightarrow> v | None \<Rightarrow> dflt)"
| "py_get v k dflt = Inl (Exn AttributeError ''object has no attribute get'')"

text \<open>\<^verbatim>\<open>len\<close> is defined on lists, strings and dictionaries and raises \<^verbatim>\<open>TypeError\<close> elsewhere.\<close>

fun py_len :: "json \<Rightarrow> py_exn + nat" where
  "py_len (JArr xs) = Inr (length xs)"
| "py_len (JStr s) = Inr (length s)"
| "py_len (JObj kvs) = Inr (length kvs)"
| "py_len v = Inl (Exn TypeError ''object has no len()'')"

text \<open>
  \<^verbatim>\<open>for r in v\<close> runs over the elements of a list, the characters of a string and the
  keys of a dictionary, and raises \<^verbatim>\<open>TypeError\<close> elsewhere.
\<close>

fun py_iter :: "json \<Rightarrow> py_exn + json list" where
  "py_iter (JArr xs) = Inr xs"
| "py_iter (JStr s) = Inr (map (\<lambda>c. JStr [c]) s)"
| "py_iter (JObj kvs) = Inr (map (\<lambda>kv. JStr (fst kv)) kvs)"
| "py_iter v = Inl (Exn TypeError ''object is not iterable'')"

subsection \<open>\<^verbatim>\<open>str\<close> of an integer and \<^verbatim>\<open>json.dumps\<close>\<close>

definition digit_char :: "nat \<Rightarrow> char" where
  "digit_char d = ''0123456789'' ! d"

function str_nat :: "nat \<Rightarrow> string" where
  "str_nat n = (if n < 10 then [digit_char n] else str_nat (n div 10) @ [digit_char (n mod 10)])"
  by pat_completeness auto
termination
  by (relation "measure (\<lambda>n. n)") auto

declare str_nat.simps [simp del]

definition str_int :: "int \<Rightarrow> string" where
  "str_int i = (if i < 0 then CHR ''-'' # str_nat (nat (- i)) else str_nat (nat i))"

definition hex_char :: "nat \<Rightarrow> char" where
  "hex_char d = ''0123456789abcdef'' ! d"

text \<open>
  \<^verbatim>\<open>json.dumps\<close> with its defaults (\<^verbatim>\<open>ensure_ascii=True\<close>, separators \<^verbatim>\<open>", "\<close> and
  \<^verbatim>\<open>": "\<close>): the quote and the backslash are escaped, the control characters are written
  by their short escapes or as \<^verbatim>\<open>\u00XX\<close>, and so is every character past \<^verbatim>\<open>~\<close>.
\<close>

definition escape_char :: "char \<Rightarrow> string" where
  "escape_char c =
     (let n = (of_char c :: nat) in
      if n = 34 then [CHR 0x5C, CHR 0x22]
      else if n = 92 then [CHR 0x5C, CHR 0x5C]
      else if n = 10 then [CHR 0x5C, CHR ''n'']
      else if n = 13 then [CHR 0x5C, CHR ''r'']
      else if n = 9 then [CHR 0x5C, CHR ''t'']
      else if n = 8 then [CHR 0x5C, CHR ''b'']
      else if n = 12 then [CHR 0x5C, CHR ''f'']
      else if n < 32 \<or> 126 < n then
        [CHR 0x5C, CHR ''u'', CHR ''0'', CHR ''0'', hex_char (n div 16), hex_char (n mod 16)]
      else [c])"

definition dumps_str :: "string \<Rightarrow> string" where
  "dumps_str s = CHR 0x22 # concat (map escape_char s) @ [CHR 0x22]"

fun join :: "string \<Rightarrow> string list \<Rightarrow> string" where
  "join sep [] = []"
| "join sep [x] = x"
| "join sep (x # y # ys) = x @ sep @ join sep (y # ys)"

fun dumps :: "json \<Rightarrow> string" where
  "dumps JNull = ''null''"
| "dumps (JBool b) = (if b then ''true'' else ''false'')"
| "dumps (JInt i) = str_int i"
| "dumps (JStr s) = dumps_str s"
| "dumps (JArr xs) = ''['' @ join '', '' (map dumps xs) @ '']''"
| "dumps (JObj kvs) =
     ''{'' @ join '', '' (map (\<lambda>kv. dumps_str (fst kv) @ '': '' @ dumps (snd kv)) kvs) @ ''}''"

section \<open>The analyser adapters and the aggregator (scanner/scanner.py)\<close>

text \<open>
  What lies outside the program is a parameter of the model: the value of
  \<^verbatim>\<open>CONDA_ENV_PATH\<close>, the file system as far as the scanner looks at it
  (\<^verbatim>\<open>Path.exists\<close>, \<^verbatim>\<open>Path.rglob("*.py")\<close>), what \<^verbatim>\<open>subprocess.run\<close> does with a
  command line, and \<^verbatim>\<open>json.loads\<close> (\<open>None\<close> where it raises). The call
  \<^verbatim>\<open>subprocess.run(cmd, capture_output=True, text=True)\<close> starts the executable, waits for
  its end and decodes what it printed. It raises when one of these fails, for instance
  \<^verbatim>\<open>FileNotFoundError\<close> when the executable does not exist and
  \<^verbatim>\<open>UnicodeDecodeError\<close> when the output is not text in the locale's encoding;
  otherwise it returns the exit code and the decoded standard output. No call passes
  \<^verbatim>\<open>check=True\<close> or a \<^verbatim>\<open>timeout\<close>, so it raises neither for an exit code nor for a
  deadline.
\<close>

record world =
  CONDA_ENV_PATH :: string
  path_exists :: "string \<Rightarrow> bool"
  rglob_py :: "string \<Rightarrow> string list"
  subprocess_run :: "string list \<Rightarrow> py_exn + (int \<times> string)"
  json_loads :: "string \<Rightarrow> json option"

text \<open>
  A computation of the scanner yields the command lines it handed to
  \<^verbatim>\<open>subprocess.run\<close>, in order, and either the exception that left it or its value.
\<close>

type_synonym 'a run = "string list list \<times> (py_exn + 'a)"

definition bind_run :: "'a run \<Rightarrow> ('a \<Rightarrow> 'b run) \<Rightarrow> 'b run" where
  "bind_run m f =
     (case m of
        (l, Inl e) \<Rightarrow> (l, Inl e)
      | (l, Inr v) \<Rightarrow> (case f v of (l', r) \<Rightarrow> (l @ l', r)))"

text \<open>\<^verbatim>\<open>project_path / "requirements.txt"\<close> on normalised paths.\<close>

definition path_join :: "string \<Rightarrow> string \<Rightarrow> string" where
  "path_join p name = p @ ''/'' @ name"

text \<open>
  The body shared by the adapters: \<^verbatim>\<open>subprocess.run\<close> stands before the \<^verbatim>\<open>try\<close>,
  so what it raises leaves the adapter; \<^verbatim>\<open>json.loads(result.stdout)\<close> stands inside
  it, and the bare \<^verbatim>\<open>except\<close> returns the fallback value. The exit code is not read.
\<close>

definition run_tool :: "world \<Rightarrow> string list \<Rightarrow> json \<Rightarrow> json run" where
  "run_tool w cmd fallback =
     (case subprocess_run w cmd of
        Inl e \<Rightarrow> ([cmd], Inl e)
      | Inr (returncode, stdout) \<Rightarrow>
          ([cmd], Inr (case json_loads w stdout of Some v \<Rightarrow> v | None \<Rightarrow> fallback)))"

definition bandit_cmd :: "world \<Rightarrow> string \<Rightarrow> string list" where
  "bandit_cmd w project_path =
     [CONDA_ENV_PATH w @ ''/bin/bandit'', ''-r'', project_path, ''-f'', ''json'']"

definition run_bandit :: "world \<Rightarrow> string \<Rightarrow> json run" where
  "run_bandit w project_path =
     run_tool w (bandit_cmd w project_path) (JObj [(''error'', JStr ''Bandit scan failed'')])"

definition semgrep_cmd :: "world \<Rightarrow> string \<Rightarrow> string list" where
  "semgrep_cmd w project_path =
     [CONDA_ENV_PATH w @ ''/bin/semgrep'', ''--config=auto'', project_path, ''--json'']"

definition run_semgrep :: "world \<Rightarrow> string \<Rightarrow> json run" where
  "run_semgrep w project_path =
     run_tool w (semgrep_cmd w project_path) (JObj [(''error'', JStr ''Semgrep scan failed'')])"

definition pip_audit_cmd :: "world \<Rightarrow> string \<Rightarrow> string list" where
  "pip_audit_cmd w project_path =
     [CONDA_ENV_PATH w @ ''/bin/pip-audit'', ''-r'',
      path_join project_path ''requirements.txt'', ''-f'', ''json'']"

definition run_pip_audit :: "world \<Rightarrow> string \<Rightarrow> json run" where
  "run_pip_audit w project_path =
     (if \<not> path_exists w (path_join project_path ''requirements.txt'')
      then ([], Inr (JObj [(''vulnerabilities_found'', JInt 0), (''details'', JArr [])]))
      else run_tool w (pip_audit_cmd w project_path) (JObj [(''error'', JStr ''pip-audit failed'')]))"

definition pylint_cmd :: "world \<Rightarrow> string \<Rightarrow> string list" where
  "pylint_cmd w f = [CONDA_ENV_PATH w @ ''/bin/pylint'', f, ''-f'', ''json'']"

text \<open>The loop of \<^verbatim>\<open>run_pylint\<close> over the files found, with the list \<^verbatim>\<open>results\<close> so far.\<close>

fun pylint_files :: "world \<Rightarrow> string list \<Rightarrow> json list \<Rightarrow> (json list) run" where
  "pylint_files w [] results = ([], Inr results)"
| "pylint_files w (f # fs) results =
     bind_run
       (run_tool w (pylint_cmd w f) (JObj [(''file'', JStr f), (''error'', JStr ''pylint failed'')]))
       (\<lambda>r. pylint_files w fs (results @ [r]))"

definition run_pylint :: "world \<Rightarrow> string \<Rightarrow> json run" where
  "run_pylint w project_path =
     bind_run (pylint_files w (rglob_py w project_path) []) (\<lambda>results. ([], Inr (JArr results)))"

definition scan_project :: "world \<Rightarrow> string \<Rightarrow> json run" where
  "scan_project w project_path =
     bind_run (run_bandit w project_path) (\<lambda>bandit_results.
     bind_run (run_semgrep w project_path) (\<lambda>semgrep_results.
     bind_run (run_pip_audit w project_path) (\<lambda>pip_audit_results.
     bind_run (run_pylint w project_path) (\<lambda>pylint_results.
       ([], Inr (JObj
         [(''static_code_analysis'',
             JObj [(''bandit'', bandit_results), (''semgrep'', semgrep_results)]),
          (''dependency_scan'', pip_audit_results),
          (''coding_standards'', pylint_results),
          (''summary'', JStr ''Scan completed'')]))))))"

section \<open>The job table (backend/models.py)\<close>

text \<open>
  A row of the table \<^verbatim>\<open>jobs\<close>. The nullable columns are options; a
  \<^verbatim>\<open>DateTime\<close> is a clock reading. The column \<^verbatim>\<open>job_id\<close> is declared
  \<^verbatim>\<open>unique\<close>, and every query of the program selects by it, so the table is a map
  from \<^verbatim>\<open>job_id\<close> to the row; the surrogate key \<^verbatim>\<open>id\<close>, which the program never
  reads, is left out.
\<close>

record Job =
  job_id :: string
  filename :: string
  status :: string
  summary :: "string option"
  result :: "string option"
  created_at :: "nat option"
  updated_at :: "nat option"
  completed_at :: "nat option"

type_synonym db = "string \<rightharpoonup> Job"

section \<open>The task executor (backend/tasks.py)\<close>

text \<open>
  \<^verbatim>\<open>run_scan_task\<close> commits twice. Up to its first commit: the job is looked up by
  \<^verbatim>\<open>job_id\<close>; when there is none the task returns (\<open>None\<close>); otherwise the status
  becomes \<^verbatim>\<open>"ongoing"\<close> and \<^verbatim>\<open>updated_at\<close> the clock reading \<open>t0\<close>. No other column
  is read or tested, the status included.
\<close>

definition mark_ongoing :: "db \<Rightarrow> string \<Rightarrow> nat \<Rightarrow> db option" where
  "mark_ongoing d jid t0 =
     (case d jid of
        None \<Rightarrow> None
      | Some job \<Rightarrow> Some (d(jid \<mapsto> job\<lparr>status := ''ongoing'', updated_at := Some t0\<rparr>)))"

text \<open>
  The summary line: \<^verbatim>\<open>f"Scan finished with {len(scan_result.get('issues', []))} issues"\<close>.
\<close>

definition scan_summary :: "json \<Rightarrow> py_exn + string" where
  "scan_summary scan_result =
     (case py_get scan_result ''issues'' (JArr []) of
        Inl e \<Rightarrow> Inl e
      | Inr issues \<Rightarrow>
          (case py_len issues of
             Inl e \<Rightarrow> Inl e
           | Inr n \<Rightarrow> Inr (''Scan finished with '' @ str_nat n @ '' issues'')))"

text \<open>
  From the scan to the second commit. \<open>outcome\<close> is what \<^verbatim>\<open>scan_project\<close> did: it
  raised, or it returned the document. When it returned and the summary line raises
  nothing, the columns \<^verbatim>\<open>status\<close>, \<^verbatim>\<open>result\<close>, \<^verbatim>\<open>summary\<close>, \<^verbatim>\<open>completed_at\<close> and
  \<^verbatim>\<open>updated_at\<close> are written (two clock readings, \<open>t1\<close> then \<open>t2\<close>). Any exception
  reaches the handler, which writes \<^verbatim>\<open>status\<close>, \<^verbatim>\<open>result\<close> and \<^verbatim>\<open>updated_at\<close>
  (the next clock reading, \<open>t1\<close>); \<open>trace\<close> is the text of
  \<^verbatim>\<open>traceback.format_exc()\<close>. The commit updates the written columns of the row; when
  the row is gone no row is updated.
\<close>

definition finish_scan :: "db \<Rightarrow> string \<Rightarrow> py_exn + json \<Rightarrow> nat \<Rightarrow> nat \<Rightarrow> string \<Rightarrow> db" where
  "finish_scan d jid outcome t1 t2 trace =
     (case d jid of
        None \<Rightarrow> d
      | Some job \<Rightarrow>
          (case (case outcome of
                   Inl e \<Rightarrow> Inl e
                 | Inr scan_result \<Rightarrow>
                     (case scan_summary scan_result of
                        Inl e \<Rightarrow> Inl e
                      | Inr s \<Rightarrow> Inr (scan_result, s))) of
             Inr (scan_result, s) \<Rightarrow>
               d(jid \<mapsto> job\<lparr>status := ''completed'',
                              result := Some (dumps scan_result),
                              summary := Some s,
                              completed_at := Some t1,
                              updated_at := Some t2\<rparr>)
           | Inl e \<Rightarrow>
               d(jid \<mapsto> job\<lparr>status := ''failed'',
                              result := Some (dumps (JObj [(''error'', JStr (str_exn e)),
                                                           (''trace'', JStr trace)])),
                              updated_at := Some t1\<rparr>)))"

text \<open>The states of the table that \<^verbatim>\<open>run_scan_task\<close> commits, in order.\<close>

definition run_scan_task_commits ::
  "db \<Rightarrow> world \<Rightarrow> string \<Rightarrow> string \<Rightarrow> nat \<Rightarrow> nat \<Rightarrow> nat \<Rightarrow> string \<Rightarrow> db list" where
  "run_scan_task_commits d w jid extract_path t0 t1 t2 trace =
     (case mark_ongoing d jid t0 of
        None \<Rightarrow> []
      | Some d1 \<Rightarrow>
          [d1, finish_scan d1 jid (snd (scan_project w extract_path)) t1 t2 trace])"

text \<open>The table when the task has ended.\<close>

definition run_scan_task ::
  "db \<Rightarrow> world \<Rightarrow> string \<Rightarrow> string \<Rightarrow> nat \<Rightarrow> nat \<Rightarrow> nat \<Rightarrow> string \<Rightarrow> db" where
  "run_scan_task d w jid extract_path t0 t1 t2 trace =
     last (d # run_scan_task_commits d w jid extract_path t0 t1 t2 trace)"

section \<open>Submission (backend/main.py, upload_project)\<close>

definition endswith :: "string \<Rightarrow> string \<Rightarrow> bool" where
  "endswith s suf = (length suf \<le> length s \<and> drop (length s - length suf) s = suf)"

text \<open>
  \<^verbatim>\<open>upload_project\<close> on the table \<open>d\<close>. \<open>file_filename\<close> is \<^verbatim>\<open>file.filename\<close>;
  \<open>io_error\<close> is what saving the archive or \<^verbatim>\<open>extract_zip\<close> raises, if anything;
  \<open>enqueue_error\<close> is what \<^verbatim>\<open>run_scan_task.delay\<close> raises, if anything (the broker
  cannot be reached); \<open>new_uuid\<close> is the value of \<^verbatim>\<open>str(uuid.uuid4())\<close>; \<open>t0\<close> and
  \<open>t1\<close> are the two clock readings. The result is the table afterwards, the tasks handed
  to the queue (job id and extraction path), and what the handler did: it re-raised the
  exception (\<^verbatim>\<open>raise e\<close>) or it returned the response. Inserting a second row with a
  \<^verbatim>\<open>job_id\<close> of the table violates the column's uniqueness. The row is committed before
  the task is enqueued.
\<close>

definition upload_project ::
  "db \<Rightarrow> string option \<Rightarrow> py_exn option \<Rightarrow> py_exn option \<Rightarrow> string \<Rightarrow> nat \<Rightarrow> nat
     \<Rightarrow> db \<times> (string \<times> string) list \<times> (py_exn + json)" where
  "upload_project d file_filename io_error enqueue_error new_uuid t0 t1 =
     (case file_filename of
        None \<Rightarrow> (d, [], Inl (Exn ValueError ''No filename provided''))
      | Some fname \<Rightarrow>
          if fname = [] then (d, [], Inl (Exn ValueError ''No filename provided''))
          else if \<not> endswith fname ''.zip''
          then (d, [], Inl (Exn ValueError ''File must be a ZIP file''))
          else
            (case io_error of
               Some e \<Rightarrow> (d, [], Inl e)
             | None \<Rightarrow>
                 (case d new_uuid of
                    Some other \<Rightarrow>
                      (d, [], Inl (Exn IntegrityError ''UNIQUE constraint failed: jobs.job_id''))
                  | None \<Rightarrow>
                      (let d' = d(new_uuid \<mapsto>
                                 \<lparr>job_id = new_uuid, filename = fname, status = ''pending'',
                                  summary = None, result = Some (dumps (JObj [])),
                                  created_at = Some t0, updated_at = Some t1,
                                  completed_at = None\<rparr>)
                       in case enqueue_error of
                            Some e \<Rightarrow> (d', [], Inl e)
                          | None \<Rightarrow>
                              (d', [(new_uuid, ''uploads/'' @ new_uuid @ ''_extracted'')],
                               Inr (JObj [(''job_id'', JStr new_uuid),
                                          (''status'', JStr ''pending'')]))))))"




section \<open>The score of the report (backend/main.py, generate_html_report)\<close>

definition bind_exn :: "py_exn + 'a \<Rightarrow> ('a \<Rightarrow> py_exn + 'b) \<Rightarrow> py_exn + 'b" where
  "bind_exn m f = (case m of Inl e \<Rightarrow> Inl e | Inr v \<Rightarrow> f v)"

text \<open>\<^verbatim>\<open>scan_results.get(k1, {}).get(k2, {}).get(k3, [])\<close>\<close>

definition get3 :: "json \<Rightarrow> string \<Rightarrow> string \<Rightarrow> string \<Rightarrow> py_exn + json" where
  "get3 scan_results k1 k2 k3 =
     bind_exn (py_get scan_results k1 (JObj [])) (\<lambda>a.
     bind_exn (py_get a k2 (JObj [])) (\<lambda>b.
     py_get b k3 (JArr [])))"

text \<open>\<^verbatim>\<open>len([r for r in rs if r.get('issue_severity') == sev])\<close>, on the items of \<open>rs\<close>.\<close>

fun count_severity :: "json list \<Rightarrow> string \<Rightarrow> py_exn + nat" where
  "count_severity [] sev = Inr 0"
| "count_severity (r # rs) sev =
     bind_exn (py_get r ''issue_severity'' JNull) (\<lambda>v.
     bind_exn (count_severity rs sev) (\<lambda>n.
     Inr (if v = JStr sev then Suc n else n)))"

text \<open>
  The four counts of the report: \<^verbatim>\<open>total_issues\<close>, \<^verbatim>\<open>critical_issues\<close>,
  \<^verbatim>\<open>high_issues\<close> and the score. The score leaves the integers at the factor
  \<^verbatim>\<open>0.5\<close>; all its values are multiples of one half, which the rationals hold
  exactly.
\<close>

definition security_score :: "int \<Rightarrow> int \<Rightarrow> int \<Rightarrow> rat" where
  "security_score total_issues critical_issues high_issues =
     max 0 (min 10
       (of_int (10 - critical_issues * 3 - high_issues * 1)
          - of_int (total_issues - critical_issues - high_issues) * (1 / 2)))"

definition report_score :: "json \<Rightarrow> py_exn + rat" where
  "report_score scan_results =
     bind_exn (get3 scan_results ''static_code_analysis'' ''bandit'' ''results'') (\<lambda>bandit_results.
     bind_exn (get3 scan_results ''static_code_analysis'' ''semgrep'' ''results'') (\<lambda>semgrep_results.
     bind_exn (get3 scan_results ''dependency_analysis'' ''pip_audit'' ''vulnerabilities'')
       (\<lambda>pip_audit_results.
     bind_exn (py_len bandit_results) (\<lambda>nb.
     bind_exn (py_len semgrep_results) (\<lambda>ns.
     bind_exn (py_len pip_audit_results) (\<lambda>np.
     bind_exn (py_iter bandit_results) (\<lambda>items.
     bind_exn (count_severity items ''HIGH'') (\<lambda>critical_issues.
     bind_exn (count_severity items ''MEDIUM'') (\<lambda>high_issues.
     Inr (security_score (int (nb + ns + np)) (int critical_issues) (int high_issues)))))))))))"

section \<open>Submissions and workers together\<close>

text \<open>
  The table is shared by the submission path and the workers. A state of the whole is the
  table, the tasks handed to the queue, and the executions of \<^verbatim>\<open>run_scan_task\<close> that
  have made their first commit and not yet their second. An upload adds what
  \<^verbatim>\<open>upload_project\<close> enqueues (one task for the job it created, none when it raised).
  The broker delivers a queued task to a worker, and nothing in the program keeps it from
  delivering the same task again, also while an earlier execution is still scanning: a
  delivery runs \<^verbatim>\<open>run_scan_task\<close> up to its first commit and leaves the task in the
  queue. An execution ends with its second commit, in whatever world the scan ran. Events
  that are not enabled change nothing. Executions interleave freely.
\<close>

record system =
  jobs :: db
  queue :: "(string \<times> string) list"
  running :: "(string \<times> string) list"

datatype event =
    Upload "string option" "py_exn option" "py_exn option" string nat nat
  | Deliver "string \<times> string" nat
  | Finish "string \<times> string" world nat nat string

definition init :: system where
  "init = \<lparr>jobs = Map.empty, queue = [], running = []\<rparr>"

fun step :: "system \<Rightarrow> event \<Rightarrow> system" where
  "step s (Upload file_filename io_error enqueue_error new_uuid t0 t1) =
     (case upload_project (jobs s) file_filename io_error enqueue_error new_uuid t0 t1 of
        (d, tasks, response) \<Rightarrow> s\<lparr>jobs := d, queue := queue s @ tasks\<rparr>)"
| "step s (Deliver task t0) =
     (if task \<in> set (queue s)
      then (case mark_ongoing (jobs s) (fst task) t0 of
              None \<Rightarrow> s
            | Some d \<Rightarrow> s\<lparr>jobs := d, running := task # running s\<rparr>)
      else s)"
| "step s (Finish task w t1 t2 trace) =
     (if task \<in> set (running s)
      then s\<lparr>jobs := finish_scan (jobs s) (fst task) (snd (scan_project w (snd task))) t1 t2 trace,
             running := remove1 task (running s)\<rparr>
      else s)"

text \<open>The state after a history, and the state a history leads to from a given one.\<close>

definition exec_from :: "system \<Rightarrow> event list \<Rightarrow> system" where
  "exec_from s evs = foldl step s evs"

definition exec :: "event list \<Rightarrow> system" where
  "exec evs = exec_from init evs"

text \<open>
  The result column holds no document when it is \<^verbatim>\<open>NULL\<close>, the empty string (both
  read as \<^verbatim>\<open>{}\<close> by the report endpoints) or the serialised empty object.
\<close>

definition result_empty :: "Job \<Rightarrow> bool" where
  "result_empty job =
     (result job = None \<or> result job = Some [] \<or> result job = Some (dumps (JObj [])))"

section \<open>Vocabulary of the statements\<close>

text \<open>
  The call of \<^verbatim>\<open>subprocess.run\<close> on a command line returned: it raised nothing, so the
  executable was found, the process ended and its output was decoded. A tool that cannot
  be started, and one that starts and prints bytes that do not decode, have not returned.
  The output is unparsable: the call returned and \<^verbatim>\<open>json.loads\<close> raises on the
  standard output.
\<close>

definition returned :: "world \<Rightarrow> string list \<Rightarrow> bool" where
  "returned w cmd = (case subprocess_run w cmd of Inl e \<Rightarrow> False | Inr r \<Rightarrow> True)"

definition unparsable :: "world \<Rightarrow> string list \<Rightarrow> bool" where
  "unparsable w cmd =
     (case subprocess_run w cmd of Inl e \<Rightarrow> False | Inr (rc, out) \<Rightarrow> json_loads w out = None)"

text \<open>
  The command lines of a complete scan, in the order of \<^verbatim>\<open>scan_project\<close>: bandit,
  semgrep, pip-audit when the project has a \<^verbatim>\<open>requirements.txt\<close>, and pylint once for
  each Python file.
\<close>

definition scan_cmds :: "world \<Rightarrow> string \<Rightarrow> string list list" where
  "scan_cmds w p =
     [bandit_cmd w p, semgrep_cmd w p]
     @ (if path_exists w (path_join p ''requirements.txt'') then [pip_audit_cmd w p] else [])
     @ map (pylint_cmd w) (rglob_py w p)"

text \<open>The tagged failure value \<^verbatim>\<open>{"error": reason}\<close>.\<close>

fun tagged_failure :: "json \<Rightarrow> bool" where
  "tagged_failure (JObj [(k, JStr reason)]) = (k = ''error'')"
| "tagged_failure v = False"

text \<open>What an adapter's shared body returns once \<^verbatim>\<open>subprocess.run\<close> has returned.\<close>

definition tool_value :: "world \<Rightarrow> string list \<Rightarrow> json \<Rightarrow> json" where
  "tool_value w cmd fallback =
     (case subprocess_run w cmd of
        Inl e \<Rightarrow> fallback
      | Inr (rc, out) \<Rightarrow> (case json_loads w out of Some v \<Rightarrow> v | None \<Rightarrow> fallback))"

section \<open>Concrete inputs\<close>

text \<open>
  A project \<^verbatim>\<open>proj\<close> with one Python file, analysed in the environment \<^verbatim>\<open>/env\<close>. The
  outputs that occur below and the documents \<^verbatim>\<open>json.loads\<close> reads from them; on every
  other text of these examples (\<^verbatim>\<open>Traceback\<close>, the empty output) it raises.
\<close>

definition demo_loads :: "string \<Rightarrow> json option" where
  \<open>demo_loads = map_of
     [(''[]'', JArr []),
      (''{"results": []}'', JObj [(''results'', JArr [])]),
      (''{"results": [{"issue_severity": "MEDIUM"}, {"issue_severity": "MEDIUM"}, {"issue_severity": "MEDIUM"}]}'',
       JObj [(''results'', JArr [JObj [(''issue_severity'', JStr ''MEDIUM'')],
                                 JObj [(''issue_severity'', JStr ''MEDIUM'')],
                                 JObj [(''issue_severity'', JStr ''MEDIUM'')]])]),
      (''{"dependencies": [{"name": "django", "version": "1.2", "vulns": [{"id": "PYSEC-2021-98"}]}]}'',
       JObj [(''dependencies'',
              JArr [JObj [(''name'', JStr ''django''), (''version'', JStr ''1.2''),
                          (''vulns'', JArr [JObj [(''id'', JStr ''PYSEC-2021-98'')]])]])])]\<close>

definition demo_run ::
  "(py_exn + int \<times> string) \<Rightarrow> (py_exn + int \<times> string) \<Rightarrow> (py_exn + int \<times> string)
     \<Rightarrow> (py_exn + int \<times> string) \<Rightarrow> string list \<Rightarrow> py_exn + int \<times> string" where
  "demo_run bandit semgrep pip_audit pylint cmd =
     (if hd cmd = ''/env/bin/bandit'' then bandit
      else if hd cmd = ''/env/bin/semgrep'' then semgrep
      else if hd cmd = ''/env/bin/pip-audit'' then pip_audit
      else pylint)"

definition demo_world :: "bool \<Rightarrow> (string list \<Rightarrow> py_exn + int \<times> string) \<Rightarrow> world" where
  "demo_world has_requirements run =
     \<lparr>CONDA_ENV_PATH = ''/env'',
      path_exists = (\<lambda>p. has_requirements),
      rglob_py = (\<lambda>p. [path_join p ''app.py'']),
      subprocess_run = run,
      json_loads = demo_loads\<rparr>"

text \<open>No findings anywhere, no \<^verbatim>\<open>requirements.txt\<close>; bandit exits with code 1.\<close>

definition world_clean :: world where
  \<open>world_clean = demo_world False
     (demo_run (Inr (1, ''{"results": []}'')) (Inr (0, ''{"results": []}''))
               (Inr (0, ''[]'')) (Inr (0, ''[]'')))\<close>

text \<open>Bandit reports three findings of medium severity; no \<^verbatim>\<open>requirements.txt\<close>.\<close>

definition world_medium3 :: world where
  \<open>world_medium3 = demo_world False
     (demo_run
        (Inr (1, ''{"results": [{"issue_severity": "MEDIUM"}, {"issue_severity": "MEDIUM"}, {"issue_severity": "MEDIUM"}]}''))
        (Inr (0, ''{"results": []}'')) (Inr (0, ''[]'')) (Inr (0, ''[]'')))\<close>

text \<open>Semgrep and pylint crash and print no JSON; the project has a \<^verbatim>\<open>requirements.txt\<close>.\<close>

definition world_garbled :: world where
  \<open>world_garbled = demo_world True
     (demo_run (Inr (0, ''{"results": []}'')) (Inr (2, ''Traceback''))
               (Inr (0, ''[]'')) (Inr (1, [])))\<close>

text \<open>pip-audit reports a vulnerable dependency; the other tools report nothing.\<close>

definition world_vulnerable :: world where
  \<open>world_vulnerable = demo_world True
     (demo_run (Inr (0, ''{"results": []}'')) (Inr (0, ''{"results": []}''))
        (Inr (1, ''{"dependencies": [{"name": "django", "version": "1.2", "vulns": [{"id": "PYSEC-2021-98"}]}]}''))
        (Inr (0, ''[]'')))\<close>

text \<open>
  Bandit starts and prints bytes that are not text: \<^verbatim>\<open>subprocess.run\<close> raises while
  it decodes them.
\<close>

definition world_undecodable :: world where
  \<open>world_undecodable = demo_world False
     (demo_run (Inl (Exn UnicodeDecodeError ''invalid start byte''))
               (Inr (0, ''{"results": []}'')) (Inr (0, ''[]'')) (Inr (0, ''[]'')))\<close>

text \<open>The environment \<^verbatim>\<open>/env\<close> does not exist: no executable can be started.\<close>

definition world_no_tools :: world where
  "world_no_tools = demo_world False
     (\<lambda>cmd. Inl (Exn FileNotFoundError ''[Errno 2] No such file or directory''))"

text \<open>
  A table with one job: uploaded as \<^verbatim>\<open>app.zip\<close> under the identifier \<^verbatim>\<open>j1\<close>
  (\<open>db_pending\<close>), and the same after its task has run where no tool finds anything
  (\<open>db_done\<close>).
\<close>

definition db_pending :: db where
  "db_pending = fst (upload_project Map.empty (Some ''app.zip'') None None ''j1'' 1 2)"

definition db_done :: db where
  "db_done = run_scan_task db_pending world_clean ''j1'' ''uploads/j1_extracted'' 3 4 5 []"

text \<open>
  Four histories of the whole: the job \<^verbatim>\<open>j1\<close> is uploaded; it is uploaded, its task
  is delivered, and the scan ends where no tool finds anything; the same where no
  executable exists; and the second history followed by another delivery of the task.
\<close>

definition events_uploaded :: "event list" where
  "events_uploaded = [Upload (Some ''app.zip'') None None ''j1'' 1 2]"

definition events_done :: "event list" where
  "events_done =
     [Upload (Some ''app.zip'') None None ''j1'' 1 2,
      Deliver (''j1'', ''uploads/j1_extracted'') 3,
      Finish (''j1'', ''uploads/j1_extracted'') world_clean 4 5 []]"

definition events_failed :: "event list" where
  "events_failed =
     [Upload (Some ''app.zip'') None None ''j1'' 1 2,
      Deliver (''j1'', ''uploads/j1_extracted'') 3,
      Finish (''j1'', ''uploads/j1_extracted'') world_no_tools 4 5 ''Traceback'']"

definition events_redelivered :: "event list" where
  "events_redelivered =
     [Upload (Some ''app.zip'') None None ''j1'' 1 2,
      Deliver (''j1'', ''uploads/j1_extracted'') 3,
      Finish (''j1'', ''uploads/j1_extracted'') world_clean 4 5 [],
      Deliver (''j1'', ''uploads/j1_extracted'') 6]"

section \<open>Rows and histories\<close>

text \<open>
  What holds of every row: its status is one of the four labels; a \<^verbatim>\<open>pending\<close> row has
  the result \<^verbatim>\<open>{}\<close> and no \<^verbatim>\<open>completed_at\<close>; a \<^verbatim>\<open>completed\<close> or \<^verbatim>\<open>failed\<close>
  row has a non-empty result; a \<^verbatim>\<open>completed\<close> row has \<^verbatim>\<open>completed_at\<close>; and a result
  that is empty is the \<^verbatim>\<open>{}\<close> of the upload.
\<close>

definition job_ok :: "Job \<Rightarrow> bool" where
  "job_ok job =
     ((status job = ''pending'' \<or> status job = ''ongoing''
         \<or> status job = ''completed'' \<or> status job = ''failed'')
      \<and> (status job = ''pending'' \<longrightarrow> result job = Some ''{}'' \<and> completed_at job = None)
      \<and> (status job = ''completed'' \<or> status job = ''failed'' \<longrightarrow> \<not> result_empty job)
      \<and> (status job = ''completed'' \<longrightarrow> completed_at job \<noteq> None)
      \<and> (result_empty job \<longrightarrow> result job = Some ''{}''))"

text \<open>
  An event ends an execution for the job \<open>jid\<close>: it is the second commit of an execution
  that is running, for a job that is in the table. It completes one when, moreover, the
  scan returned.
\<close>

fun finishes :: "system \<Rightarrow> event \<Rightarrow> string \<Rightarrow> bool" where
  "finishes s (Finish task w t1 t2 trace) jid =
     (fst task = jid \<and> task \<in> set (running s) \<and> jobs s jid \<noteq> None)"
| "finishes s e jid = False"

fun completes :: "system \<Rightarrow> event \<Rightarrow> string \<Rightarrow> bool" where
  "completes s (Finish task w t1 t2 trace) jid =
     (fst task = jid \<and> task \<in> set (running s) \<and> jobs s jid \<noteq> None
      \<and> (case snd (scan_project w (snd task)) of Inl e \<Rightarrow> False | Inr doc \<Rightarrow> True))"
| "completes s e jid = False"

text \<open>Some event of the history, run from the state \<open>s\<close>, has the property \<open>P\<close>.\<close>

fun ever :: "(system \<Rightarrow> event \<Rightarrow> string \<Rightarrow> bool) \<Rightarrow> system \<Rightarrow> event list \<Rightarrow> string \<Rightarrow> bool" where
  "ever P s [] jid = False"
| "ever P s (e # es) jid = (P s e jid \<or> ever P (step s e) es jid)"

text \<open>The job has a non-empty result; the job has a completion time.\<close>

definition has_result :: "system \<Rightarrow> string \<Rightarrow> bool" where
  "has_result s jid = (case jobs s jid of None \<Rightarrow> False | Some job \<Rightarrow> \<not> result_empty job)"

definition has_completed_at :: "system \<Rightarrow> string \<Rightarrow> bool" where
  "has_completed_at s jid =
     (case jobs s jid of None \<Rightarrow> False | Some job \<Rightarrow> completed_at job \<noteq> None)"

section \<open>Well-formed findings\<close>

text \<open>
  A finding of bandit is a dictionary; it has the severity \<open>sev\<close> when its entry
  \<^verbatim>\<open>issue_severity\<close> is that string.
\<close>

fun is_dict :: "json \<Rightarrow> bool" where
  "is_dict (JObj kvs) = True"
| "is_dict v = False"

definition has_severity :: "string \<Rightarrow> json \<Rightarrow> bool" where
  "has_severity sev r = (py_get r ''issue_severity'' JNull = Inr (JStr sev))"

section \<open>Properties of the scanner\<close>

lemma run_tool_returned:
  "returned w cmd \<Longrightarrow> run_tool w cmd fb = ([cmd], Inr (tool_value w cmd fb))"
  by (auto simp: returned_def run_tool_def tool_value_def split: sum.splits prod.splits)

lemma tool_value_unparsable:
  "unparsable w cmd \<Longrightarrow> tool_value w cmd fb = fb"
  by (auto simp: unparsable_def tool_value_def split: sum.splits prod.splits)

lemma bind_run_Inr: "bind_run (l, Inr v) f = (l @ fst (f v), snd (f v))"
  by (simp add: bind_run_def split: prod.splits)

lemma pylint_files_returned:
  "list_all (returned w) (map (pylint_cmd w) fs) \<Longrightarrow>
   pylint_files w fs acc =
     (map (pylint_cmd w) fs,
      Inr (acc @ map (\<lambda>f. tool_value w (pylint_cmd w f)
                          (JObj [(''file'', JStr f), (''error'', JStr ''pylint failed'')])) fs))"
  by (induction fs arbitrary: acc) (simp_all add: run_tool_returned bind_run_Inr)

lemma run_pylint_returned:
  "list_all (returned w) (map (pylint_cmd w) (rglob_py w p)) \<Longrightarrow>
   run_pylint w p =
     (map (pylint_cmd w) (rglob_py w p),
      Inr (JArr (map (\<lambda>f. tool_value w (pylint_cmd w f)
                          (JObj [(''file'', JStr f), (''error'', JStr ''pylint failed'')]))
                   (rglob_py w p))))"
  by (simp add: run_pylint_def pylint_files_returned bind_run_Inr)

lemma run_pip_audit_returned:
  "(path_exists w (path_join p ''requirements.txt'') \<longrightarrow> returned w (pip_audit_cmd w p)) \<Longrightarrow>
   run_pip_audit w p =
     (if path_exists w (path_join p ''requirements.txt'') then [pip_audit_cmd w p] else [],
      Inr (if path_exists w (path_join p ''requirements.txt'')
           then tool_value w (pip_audit_cmd w p) (JObj [(''error'', JStr ''pip-audit failed'')])
           else JObj [(''vulnerabilities_found'', JInt 0), (''details'', JArr [])]))"
  by (simp add: run_pip_audit_def run_tool_returned)

lemma scan_cmds_returned:
  assumes "list_all (returned w) (scan_cmds w p)"
  shows "returned w (bandit_cmd w p)"
    and "returned w (semgrep_cmd w p)"
    and "path_exists w (path_join p ''requirements.txt'') \<longrightarrow> returned w (pip_audit_cmd w p)"
    and "list_all (returned w) (map (pylint_cmd w) (rglob_py w p))"
  using assms by (simp_all add: scan_cmds_def split: if_splits)

lemma scan_project_returned:
  assumes "list_all (returned w) (scan_cmds w p)"
  shows "scan_project w p =
     (scan_cmds w p,
      Inr (JObj
        [(''static_code_analysis'',
            JObj [(''bandit'', tool_value w (bandit_cmd w p) (JObj [(''error'', JStr ''Bandit scan failed'')])),
                  (''semgrep'', tool_value w (semgrep_cmd w p) (JObj [(''error'', JStr ''Semgrep scan failed'')]))]),
         (''dependency_scan'',
            if path_exists w (path_join p ''requirements.txt'')
            then tool_value w (pip_audit_cmd w p) (JObj [(''error'', JStr ''pip-audit failed'')])
            else JObj [(''vulnerabilities_found'', JInt 0), (''details'', JArr [])]),
         (''coding_standards'',
            JArr (map (\<lambda>f. tool_value w (pylint_cmd w f)
                          (JObj [(''file'', JStr f), (''error'', JStr ''pylint failed'')]))
                   (rglob_py w p))),
         (''summary'', JStr ''Scan completed'')]))"
  using scan_cmds_returned [OF assms]
  by (simp add: scan_project_def run_bandit_def run_semgrep_def run_tool_returned
      run_pip_audit_returned run_pylint_returned bind_run_Inr scan_cmds_def)

lemma scan_project_shape:
  "snd (scan_project w p) = Inr doc \<Longrightarrow>
   \<exists>b s d c. doc = JObj
        [(''static_code_analysis'', JObj [(''bandit'', b), (''semgrep'', s)]),
         (''dependency_scan'', d),
         (''coding_standards'', c),
         (''summary'', JStr ''Scan completed'')]"
  by (auto simp: scan_project_def bind_run_def split: prod.splits sum.splits)

lemmas demo_defs =
  demo_world_def demo_run_def demo_loads_def bandit_cmd_def semgrep_cmd_def pip_audit_cmd_def
  pylint_cmd_def path_join_def

subsection \<open>Analyser failures\<close>

text \<open>
  Claim C1, as the code has it. Whenever every call of \<^verbatim>\<open>subprocess.run\<close> of the scan
  returns (none raises: each executable is found, ends, and prints text that decodes),
  each adapter returns a value instead of raising, whatever the exit codes: bandit, semgrep
  and pip-audit return \<^verbatim>\<open>{"error": reason}\<close> when their output does not parse as JSON,
  and pylint returns a list that holds \<^verbatim>\<open>{"file": f, "error": "pylint failed"}\<close> at
  the place of every file whose output does not parse. All command lines of the scan are
  run, and the document of \<^verbatim>\<open>scan_project\<close> holds each adapter's own value under its
  key: an analyser whose output is unreadable neither stops the others nor removes their
  entries. The exit code is not read and no time limit is set.
\<close>

theorem adapters_recover_unparsable_output:
  assumes "list_all (returned w) (scan_cmds w p)"
  shows "\<exists>b s d c.
      run_bandit w p = ([bandit_cmd w p], Inr b)
    \<and> (unparsable w (bandit_cmd w p) \<longrightarrow> b = JObj [(''error'', JStr ''Bandit scan failed'')])
    \<and> run_semgrep w p = ([semgrep_cmd w p], Inr s)
    \<and> (unparsable w (semgrep_cmd w p) \<longrightarrow> s = JObj [(''error'', JStr ''Semgrep scan failed'')])
    \<and> snd (run_pip_audit w p) = Inr d
    \<and> (path_exists w (path_join p ''requirements.txt'') \<and> unparsable w (pip_audit_cmd w p)
          \<longrightarrow> d = JObj [(''error'', JStr ''pip-audit failed'')])
    \<and> snd (run_pylint w p) = Inr (JArr c)
    \<and> length c = length (rglob_py w p)
    \<and> (\<forall>i<length c. unparsable w (pylint_cmd w (rglob_py w p ! i))
          \<longrightarrow> c ! i = JObj [(''file'', JStr (rglob_py w p ! i)), (''error'', JStr ''pylint failed'')])
    \<and> scan_project w p =
        (scan_cmds w p,
         Inr (JObj [(''static_code_analysis'', JObj [(''bandit'', b), (''semgrep'', s)]),
                    (''dependency_scan'', d),
                    (''coding_standards'', JArr c),
                    (''summary'', JStr ''Scan completed'')]))"
proof -
  note l = scan_cmds_returned [OF assms]
  let ?b = "tool_value w (bandit_cmd w p) (JObj [(''error'', JStr ''Bandit scan failed'')])"
  let ?s = "tool_value w (semgrep_cmd w p) (JObj [(''error'', JStr ''Semgrep scan failed'')])"
  let ?d = "if path_exists w (path_join p ''requirements.txt'')
            then tool_value w (pip_audit_cmd w p) (JObj [(''error'', JStr ''pip-audit failed'')])
            else JObj [(''vulnerabilities_found'', JInt 0), (''details'', JArr [])]"
  let ?c = "map (\<lambda>f. tool_value w (pylint_cmd w f)
                          (JObj [(''file'', JStr f), (''error'', JStr ''pylint failed'')]))
                   (rglob_py w p)"
  have 1: "run_bandit w p = ([bandit_cmd w p], Inr ?b)"
    by (simp add: run_bandit_def run_tool_returned [OF l(1)])
  have 2: "unparsable w (bandit_cmd w p) \<longrightarrow> ?b = JObj [(''error'', JStr ''Bandit scan failed'')]"
    by (simp add: tool_value_unparsable)
  have 3: "run_semgrep w p = ([semgrep_cmd w p], Inr ?s)"
    by (simp add: run_semgrep_def run_tool_returned [OF l(2)])
  have 4: "unparsable w (semgrep_cmd w p) \<longrightarrow> ?s = JObj [(''error'', JStr ''Semgrep scan failed'')]"
    by (simp add: tool_value_unparsable)
  have 5: "snd (run_pip_audit w p) = Inr ?d"
    by (simp add: run_pip_audit_returned [OF l(3)])
  have 6: "path_exists w (path_join p ''requirements.txt'') \<and> unparsable w (pip_audit_cmd w p)
          \<longrightarrow> ?d = JObj [(''error'', JStr ''pip-audit failed'')]"
    by (simp add: tool_value_unparsable)
  have 7: "snd (run_pylint w p) = Inr (JArr ?c)"
    by (simp add: run_pylint_returned [OF l(4)])
  have 8: "length ?c = length (rglob_py w p)" by simp
  have 9: "\<forall>i<length ?c. unparsable w (pylint_cmd w (rglob_py w p ! i))
          \<longrightarrow> ?c ! i = JObj [(''file'', JStr (rglob_py w p ! i)), (''error'', JStr ''pylint failed'')]"
    by (simp add: tool_value_unparsable)
  have 10: "scan_project w p =
        (scan_cmds w p,
         Inr (JObj [(''static_code_analysis'', JObj [(''bandit'', ?b), (''semgrep'', ?s)]),
                    (''dependency_scan'', ?d),
                    (''coding_standards'', JArr ?c),
                    (''summary'', JStr ''Scan completed'')]))"
    using scan_project_returned [OF assms] .
  from 1 2 3 4 5 6 7 8 9 10 show ?thesis by blast
qed

text \<open>
  An instance: semgrep and pylint print no JSON. All four command lines are run, the two
  unreadable outputs are recorded in place, and the entries of bandit and pip-audit are
  there.
\<close>

theorem adapters_recover_unparsable_output_witness:
  "list_all (returned world_garbled) (scan_cmds world_garbled ''proj'')
   \<and> unparsable world_garbled (semgrep_cmd world_garbled ''proj'')
   \<and> unparsable world_garbled (pylint_cmd world_garbled ''proj/app.py'')
   \<and> scan_project world_garbled ''proj'' =
       (scan_cmds world_garbled ''proj'',
        Inr (JObj [(''static_code_analysis'',
                      JObj [(''bandit'', JObj [(''results'', JArr [])]),
                            (''semgrep'', JObj [(''error'', JStr ''Semgrep scan failed'')])]),
                   (''dependency_scan'', JArr []),
                   (''coding_standards'',
                      JArr [JObj [(''file'', JStr ''proj/app.py''), (''error'', JStr ''pylint failed'')]]),
                   (''summary'', JStr ''Scan completed'')]))"
proof -
  have h: "list_all (returned world_garbled) (scan_cmds world_garbled ''proj'')"
    by (simp add: world_garbled_def scan_cmds_def returned_def demo_defs)
  have u1: "unparsable world_garbled (semgrep_cmd world_garbled ''proj'')"
    by (simp add: world_garbled_def unparsable_def demo_defs)
  have u2: "unparsable world_garbled (pylint_cmd world_garbled ''proj/app.py'')"
    by (simp add: world_garbled_def unparsable_def demo_defs)
  have f: "rglob_py world_garbled ''proj'' = [''proj/app.py'']"
    by (simp add: world_garbled_def demo_defs)
  from adapters_recover_unparsable_output [OF h] obtain b s d c where
    r: "run_bandit world_garbled ''proj'' = ([bandit_cmd world_garbled ''proj''], Inr b)"
       "unparsable world_garbled (semgrep_cmd world_garbled ''proj'')
          \<longrightarrow> s = JObj [(''error'', JStr ''Semgrep scan failed'')]"
       "snd (run_pip_audit world_garbled ''proj'') = Inr d"
       "length c = length (rglob_py world_garbled ''proj'')"
       "\<forall>i<length c. unparsable world_garbled (pylint_cmd world_garbled (rglob_py world_garbled ''proj'' ! i))
          \<longrightarrow> c ! i = JObj [(''file'', JStr (rglob_py world_garbled ''proj'' ! i)),
                             (''error'', JStr ''pylint failed'')]"
       "scan_project world_garbled ''proj'' =
        (scan_cmds world_garbled ''proj'',
         Inr (JObj [(''static_code_analysis'', JObj [(''bandit'', b), (''semgrep'', s)]),
                    (''dependency_scan'', d),
                    (''coding_standards'', JArr c),
                    (''summary'', JStr ''Scan completed'')]))"
    by blast
  have b: "b = JObj [(''results'', JArr [])]"
    using r(1) by (simp add: run_bandit_def run_tool_def world_garbled_def demo_defs)
  have s: "s = JObj [(''error'', JStr ''Semgrep scan failed'')]"
    using r(2) u1 by simp
  have d: "d = JArr []"
    using r(3) by (simp add: run_pip_audit_def run_tool_def world_garbled_def demo_defs)
  have c: "c = [JObj [(''file'', JStr ''proj/app.py''), (''error'', JStr ''pylint failed'')]]"
    using r(4) r(5) u2 f by (cases c) auto
  show ?thesis using h u1 u2 r(6) b s d c by simp
qed

text \<open>
  Claim C1 as it was stated fails four ways. Bandit exits with code 1 and prints a
  report: the adapter returns the report, not a failure value. Pylint prints nothing
  readable: the adapter returns a list, not a failure value. The executables do not
  exist: the adapter raises, and so does \<^verbatim>\<open>scan_project\<close>, with no document at all.
  Bandit prints bytes that do not decode: the adapter raises, and so does
  \<^verbatim>\<open>scan_project\<close>.
\<close>

theorem tool_failure_not_tagged_counterexample:
  \<open>subprocess_run world_clean (bandit_cmd world_clean ''proj'') = Inr (1, ''{"results": []}'')
   \<and> snd (run_bandit world_clean ''proj'') = Inr (JObj [(''results'', JArr [])])
   \<and> \<not> tagged_failure (JObj [(''results'', JArr [])])
   \<and> unparsable world_garbled (pylint_cmd world_garbled ''proj/app.py'')
   \<and> snd (run_pylint world_garbled ''proj'') =
        Inr (JArr [JObj [(''file'', JStr ''proj/app.py''), (''error'', JStr ''pylint failed'')]])
   \<and> \<not> tagged_failure
          (JArr [JObj [(''file'', JStr ''proj/app.py''), (''error'', JStr ''pylint failed'')]])
   \<and> snd (run_bandit world_no_tools ''proj'') =
        Inl (Exn FileNotFoundError ''[Errno 2] No such file or directory'')
   \<and> snd (scan_project world_no_tools ''proj'') =
        Inl (Exn FileNotFoundError ''[Errno 2] No such file or directory'')
   \<and> snd (run_bandit world_undecodable ''proj'') =
        Inl (Exn UnicodeDecodeError ''invalid start byte'')
   \<and> snd (scan_project world_undecodable ''proj'') =
        Inl (Exn UnicodeDecodeError ''invalid start byte'')\<close>
  by (simp add: world_clean_def world_garbled_def world_no_tools_def world_undecodable_def
      unparsable_def scan_project_def run_bandit_def run_pylint_def run_tool_def bind_run_def
      demo_defs)

subsection \<open>The dependency audit without a manifest\<close>

text \<open>
  Claim C6. When the project root holds no \<^verbatim>\<open>requirements.txt\<close>, the dependency
  audit hands no command line to \<^verbatim>\<open>subprocess.run\<close> and returns the value
  \<^verbatim>\<open>{"vulnerabilities_found": 0, "details": []}\<close>: zero vulnerabilities, no
  \<^verbatim>\<open>error\<close> key, no exception.
\<close>

theorem run_pip_audit_no_manifest:
  assumes "\<not> path_exists w (path_join project_path ''requirements.txt'')"
  shows "run_pip_audit w project_path =
           ([], Inr (JObj [(''vulnerabilities_found'', JInt 0), (''details'', JArr [])]))
       \<and> (\<exists>v. snd (run_pip_audit w project_path) = Inr v
              \<and> py_get v ''vulnerabilities_found'' JNull = Inr (JInt 0)
              \<and> py_get v ''error'' JNull = Inr JNull
              \<and> \<not> tagged_failure v)"
  using assms by (simp add: run_pip_audit_def)

text \<open>An instance: a project without manifest, in a world where no executable exists.\<close>

theorem run_pip_audit_no_manifest_witness:
  "\<not> path_exists world_no_tools (path_join ''proj'' ''requirements.txt'')
   \<and> fst (run_pip_audit world_no_tools ''proj'') = []
   \<and> snd (run_pip_audit world_no_tools ''proj'') =
        Inr (JObj [(''vulnerabilities_found'', JInt 0), (''details'', JArr [])])"
proof -
  have h: "\<not> path_exists world_no_tools (path_join ''proj'' ''requirements.txt'')"
    by (simp add: world_no_tools_def demo_world_def)
  show ?thesis using h run_pip_audit_no_manifest [OF h] by simp
qed

subsection \<open>The keys of the aggregated document\<close>

text \<open>
  Claim C9, as the code has it. Whenever every call of \<^verbatim>\<open>subprocess.run\<close> of the scan
  returns (none raises: each executable is found, ends, and prints text that decodes),
  \<^verbatim>\<open>scan_project\<close> returns a dictionary with exactly the four keys
  \<^verbatim>\<open>static_code_analysis\<close> (a dictionary with exactly the keys \<^verbatim>\<open>bandit\<close> and
  \<^verbatim>\<open>semgrep\<close>), \<^verbatim>\<open>dependency_scan\<close>, \<^verbatim>\<open>coding_standards\<close> and \<^verbatim>\<open>summary\<close>,
  the last with the value \<^verbatim>\<open>"Scan completed"\<close>, whatever the tools' exit codes and
  whether or not their outputs parse. The dependency audit is the value of
  \<^verbatim>\<open>dependency_scan\<close>; there is no key \<^verbatim>\<open>dependency_analysis\<close>. A document that
  \<^verbatim>\<open>scan_project\<close> returns always has this form.
\<close>

theorem scan_project_keys:
  "(list_all (returned w) (scan_cmds w p) \<longrightarrow> (\<exists>doc. snd (scan_project w p) = Inr doc))
   \<and> (\<forall>doc. snd (scan_project w p) = Inr doc \<longrightarrow>
        (\<exists>b s d c.
           doc = JObj [(''static_code_analysis'', JObj [(''bandit'', b), (''semgrep'', s)]),
                       (''dependency_scan'', d),
                       (''coding_standards'', c),
                       (''summary'', JStr ''Scan completed'')]
         \<and> snd (run_pip_audit w p) = Inr d
         \<and> py_get doc ''dependency_analysis'' JNull = Inr JNull))"
proof (intro conjI allI impI)
  assume "list_all (returned w) (scan_cmds w p)"
  then show "\<exists>doc. snd (scan_project w p) = Inr doc"
    by (simp add: scan_project_returned)
next
  fix doc
  assume "snd (scan_project w p) = Inr doc"
  then show "\<exists>b s d c.
           doc = JObj [(''static_code_analysis'', JObj [(''bandit'', b), (''semgrep'', s)]),
                       (''dependency_scan'', d),
                       (''coding_standards'', c),
                       (''summary'', JStr ''Scan completed'')]
         \<and> snd (run_pip_audit w p) = Inr d
         \<and> py_get doc ''dependency_analysis'' JNull = Inr JNull"
    by (auto simp: scan_project_def bind_run_def split: prod.splits sum.splits)
qed

text \<open>An instance: the scan in which semgrep and pylint print no JSON.\<close>

theorem scan_project_keys_witness:
  "list_all (returned world_garbled) (scan_cmds world_garbled ''proj'')
   \<and> (\<exists>b s d c.
         snd (scan_project world_garbled ''proj'') =
           Inr (JObj [(''static_code_analysis'', JObj [(''bandit'', b), (''semgrep'', s)]),
                      (''dependency_scan'', d),
                      (''coding_standards'', c),
                      (''summary'', JStr ''Scan completed'')]))"
proof -
  have h: "list_all (returned world_garbled) (scan_cmds world_garbled ''proj'')"
    by (simp add: world_garbled_def scan_cmds_def returned_def demo_defs)
  from scan_project_keys [of world_garbled "''proj''"] h
  obtain doc where "snd (scan_project world_garbled ''proj'') = Inr doc" by blast
  with scan_project_keys [of world_garbled "''proj''"] h show ?thesis by metis
qed

text \<open>
  Claim C9 as it was stated fails where a call of \<^verbatim>\<open>subprocess.run\<close> raises, here
  because no executable exists: \<^verbatim>\<open>scan_project\<close>
  raises and returns no dictionary.
\<close>

theorem scan_project_keys_counterexample:
  "snd (scan_project world_no_tools ''proj'') =
     Inl (Exn FileNotFoundError ''[Errno 2] No such file or directory'')"
  by (simp add: world_no_tools_def scan_project_def run_bandit_def run_tool_def bind_run_def
      demo_defs)

section \<open>Properties of the task executor\<close>

lemma str_nat_0: "str_nat 0 = ''0''"
  by (simp add: str_nat.simps digit_char_def)

lemma scan_summary_scan_project:
  "snd (scan_project w p) = Inr doc \<Longrightarrow> scan_summary doc = Inr ''Scan finished with 0 issues''"
  by (auto dest!: scan_project_shape simp: scan_summary_def str_nat_0)

lemmas task_defs = run_scan_task_def run_scan_task_commits_def mark_ongoing_def finish_scan_def

subsection \<open>The failure path writes three columns\<close>

text \<open>
  Claim C10. When the job is found and \<^verbatim>\<open>scan_project\<close> raises, the task ends with the
  job's row changed in the columns \<^verbatim>\<open>status\<close>, \<^verbatim>\<open>result\<close> and \<^verbatim>\<open>updated_at\<close>
  only: \<^verbatim>\<open>job_id\<close>, \<^verbatim>\<open>filename\<close>, \<^verbatim>\<open>summary\<close>, \<^verbatim>\<open>created_at\<close> and
  \<^verbatim>\<open>completed_at\<close> keep the values they had, and the rows of the other jobs are as
  they were.
\<close>

theorem failure_path_frame:
  assumes "d jid = Some job" and "snd (scan_project w extract_path) = Inl e"
  shows "run_scan_task d w jid extract_path ts tc tu trace =
           d(jid \<mapsto> job\<lparr>status := ''failed'',
                          result := Some (dumps (JObj [(''error'', JStr (str_exn e)),
                                                       (''trace'', JStr trace)])),
                          updated_at := Some tc\<rparr>)
       \<and> (\<exists>job'. run_scan_task d w jid extract_path ts tc tu trace jid = Some job'
              \<and> job_id job' = job_id job
              \<and> filename job' = filename job
              \<and> summary job' = summary job
              \<and> created_at job' = created_at job
              \<and> completed_at job' = completed_at job)"
  using assms by (simp add: task_defs)

text \<open>An instance: the task of the uploaded job runs where no executable exists.\<close>

theorem failure_path_frame_witness:
  "db_pending ''j1'' =
     Some \<lparr>job_id = ''j1'', filename = ''app.zip'', status = ''pending'', summary = None,
           result = Some ''{}'', created_at = Some 1, updated_at = Some 2, completed_at = None\<rparr>
   \<and> snd (scan_project world_no_tools ''uploads/j1_extracted'') =
        Inl (Exn FileNotFoundError ''[Errno 2] No such file or directory'')
   \<and> run_scan_task db_pending world_no_tools ''j1'' ''uploads/j1_extracted'' 3 4 5 ''Traceback'' ''j1'' =
        Some \<lparr>job_id = ''j1'', filename = ''app.zip'', status = ''failed'', summary = None,
              result = Some (dumps (JObj [(''error'', JStr ''[Errno 2] No such file or directory''),
                                          (''trace'', JStr ''Traceback'')])),
              created_at = Some 1, updated_at = Some 4, completed_at = None\<rparr>"
proof -
  have j: "db_pending ''j1'' =
     Some \<lparr>job_id = ''j1'', filename = ''app.zip'', status = ''pending'', summary = None,
           result = Some ''{}'', created_at = Some 1, updated_at = Some 2, completed_at = None\<rparr>"
    by (simp add: db_pending_def upload_project_def endswith_def)
  have s: "snd (scan_project world_no_tools ''uploads/j1_extracted'') =
        Inl (Exn FileNotFoundError ''[Errno 2] No such file or directory'')"
    by (simp add: world_no_tools_def scan_project_def run_bandit_def run_tool_def bind_run_def
        demo_defs)
  show ?thesis
    using j s
      failure_path_frame [where d = db_pending and jid = "''j1''" and ts = 3 and tc = 4
        and tu = 5 and trace = "''Traceback''", OF j s]
    by simp
qed

subsection \<open>The transitions of one task\<close>

text \<open>
  Claim C2, as the code has it. A task for a job that is not in the table commits nothing
  and leaves the table as it is. A task for a job in the table commits twice, whatever the
  job's status was. The first commit sets the status to \<^verbatim>\<open>ongoing\<close> and
  \<^verbatim>\<open>updated_at\<close> and changes no other column. The second commit writes, when the scan
  returned, the status \<^verbatim>\<open>completed\<close>, the serialised document as the result, a
  summary line \<^verbatim>\<open>Scan finished with N issues\<close>, \<^verbatim>\<open>completed_at\<close> and
  \<^verbatim>\<open>updated_at\<close>, and when the scan raised, the status \<^verbatim>\<open>failed\<close>, the document of
  the error message and the trace as the result, and \<^verbatim>\<open>updated_at\<close>; every other
  column keeps its value, and the rows of the other jobs are not touched. The executor does
  not read the status: a task run for a job that is already \<^verbatim>\<open>completed\<close> or
  \<^verbatim>\<open>failed\<close> scans again and writes the columns anew.
\<close>

theorem run_scan_task_transitions:
  "(d jid = None \<longrightarrow>
      run_scan_task_commits d w jid extract_path ts tc tu trace = []
    \<and> run_scan_task d w jid extract_path ts tc tu trace = d)
   \<and> (\<forall>job. d jid = Some job \<longrightarrow>
        (\<exists>n job2.
           job2 = (case snd (scan_project w extract_path) of
                     Inr doc \<Rightarrow>
                       job\<lparr>status := ''completed'',
                            result := Some (dumps doc),
                            summary := Some (''Scan finished with '' @ str_nat n @ '' issues''),
                            completed_at := Some tc,
                            updated_at := Some tu\<rparr>
                   | Inl e \<Rightarrow>
                       job\<lparr>status := ''failed'',
                            result := Some (dumps (JObj [(''error'', JStr (str_exn e)),
                                                         (''trace'', JStr trace)])),
                            updated_at := Some tc\<rparr>)
         \<and> run_scan_task_commits d w jid extract_path ts tc tu trace =
             [d(jid \<mapsto> job\<lparr>status := ''ongoing'', updated_at := Some ts\<rparr>), d(jid \<mapsto> job2)]
         \<and> run_scan_task d w jid extract_path ts tc tu trace = d(jid \<mapsto> job2)
         \<and> (status job2 = ''completed'' \<or> status job2 = ''failed'')))"
proof (intro conjI allI impI)
  assume "d jid = None"
  then show "run_scan_task_commits d w jid extract_path ts tc tu trace = []"
    and "run_scan_task d w jid extract_path ts tc tu trace = d"
    by (simp_all add: task_defs)
next
  fix job
  assume j: "d jid = Some job"
  show "\<exists>n job2.
           job2 = (case snd (scan_project w extract_path) of
                     Inr doc \<Rightarrow>
                       job\<lparr>status := ''completed'',
                            result := Some (dumps doc),
                            summary := Some (''Scan finished with '' @ str_nat n @ '' issues''),
                            completed_at := Some tc,
                            updated_at := Some tu\<rparr>
                   | Inl e \<Rightarrow>
                       job\<lparr>status := ''failed'',
                            result := Some (dumps (JObj [(''error'', JStr (str_exn e)),
                                                         (''trace'', JStr trace)])),
                            updated_at := Some tc\<rparr>)
         \<and> run_scan_task_commits d w jid extract_path ts tc tu trace =
             [d(jid \<mapsto> job\<lparr>status := ''ongoing'', updated_at := Some ts\<rparr>), d(jid \<mapsto> job2)]
         \<and> run_scan_task d w jid extract_path ts tc tu trace = d(jid \<mapsto> job2)
         \<and> (status job2 = ''completed'' \<or> status job2 = ''failed'')"
  proof (cases "snd (scan_project w extract_path)")
    case (Inl e)
    with j show ?thesis
      by (simp add: task_defs del: dumps.simps)
  next
    case (Inr doc)
    with j scan_summary_scan_project [OF Inr] show ?thesis
      by (intro exI [of _ 0]) (simp add: task_defs str_nat_0 del: dumps.simps)
  qed
qed

text \<open>
  An instance: the task of the uploaded job, run once where no tool finds anything, takes
  the status from \<^verbatim>\<open>pending\<close> to \<^verbatim>\<open>ongoing\<close> and to \<^verbatim>\<open>completed\<close>.
\<close>

theorem run_scan_task_transitions_witness:
  "map_option status (db_pending ''j1'') = Some ''pending''
   \<and> length (run_scan_task_commits db_pending world_clean ''j1'' ''uploads/j1_extracted'' 3 4 5 []) = 2
   \<and> hd (run_scan_task_commits db_pending world_clean ''j1'' ''uploads/j1_extracted'' 3 4 5 []) ''j1''
        = Some \<lparr>job_id = ''j1'', filename = ''app.zip'', status = ''ongoing'', summary = None,
                 result = Some ''{}'', created_at = Some 1, updated_at = Some 3,
                 completed_at = None\<rparr>
   \<and> map_option status
        (run_scan_task db_pending world_clean ''j1'' ''uploads/j1_extracted'' 3 4 5 [] ''j1'')
        = Some ''completed''
   \<and> map_option completed_at
        (run_scan_task db_pending world_clean ''j1'' ''uploads/j1_extracted'' 3 4 5 [] ''j1'')
        = Some (Some 4)
   \<and> map_option filename
        (run_scan_task db_pending world_clean ''j1'' ''uploads/j1_extracted'' 3 4 5 [] ''j1'')
        = Some ''app.zip''"
proof -
  have j: "db_pending ''j1'' =
     Some \<lparr>job_id = ''j1'', filename = ''app.zip'', status = ''pending'', summary = None,
           result = Some ''{}'', created_at = Some 1, updated_at = Some 2, completed_at = None\<rparr>"
    by (simp add: db_pending_def upload_project_def endswith_def)
  have l: "list_all (returned world_clean) (scan_cmds world_clean ''uploads/j1_extracted'')"
    by (simp add: world_clean_def scan_cmds_def returned_def demo_defs)
  obtain doc where s: "snd (scan_project world_clean ''uploads/j1_extracted'') = Inr doc"
    using scan_project_returned [OF l] by simp
  from run_scan_task_transitions [where d = db_pending and jid = "''j1''" and w = world_clean
      and extract_path = "''uploads/j1_extracted''" and ts = 3 and tc = 4 and tu = 5
      and trace = "[]"] j
  obtain n job2 where
    "job2 = (case snd (scan_project world_clean ''uploads/j1_extracted'') of
               Inr doc \<Rightarrow>
                 \<lparr>job_id = ''j1'', filename = ''app.zip'', status = ''pending'', summary = None,
                  result = Some ''{}'', created_at = Some 1, updated_at = Some 2,
                  completed_at = None\<rparr>
                 \<lparr>status := ''completed'',
                  result := Some (dumps doc),
                  summary := Some (''Scan finished with '' @ str_nat n @ '' issues''),
                  completed_at := Some 4,
                  updated_at := Some 5\<rparr>
             | Inl e \<Rightarrow>
                 \<lparr>job_id = ''j1'', filename = ''app.zip'', status = ''pending'', summary = None,
                  result = Some ''{}'', created_at = Some 1, updated_at = Some 2,
                  completed_at = None\<rparr>
                 \<lparr>status := ''failed'',
                  result := Some (dumps (JObj [(''error'', JStr (str_exn e)),
                                               (''trace'', JStr [])])),
                  updated_at := Some 4\<rparr>)"
    "run_scan_task_commits db_pending world_clean ''j1'' ''uploads/j1_extracted'' 3 4 5 [] =
       [db_pending(''j1'' \<mapsto>
          \<lparr>job_id = ''j1'', filename = ''app.zip'', status = ''pending'', summary = None,
           result = Some ''{}'', created_at = Some 1, updated_at = Some 2,
           completed_at = None\<rparr>\<lparr>status := ''ongoing'', updated_at := Some 3\<rparr>),
        db_pending(''j1'' \<mapsto> job2)]"
    "run_scan_task db_pending world_clean ''j1'' ''uploads/j1_extracted'' 3 4 5 [] =
       db_pending(''j1'' \<mapsto> job2)"
    by blast
  with j s show ?thesis by (simp del: dumps.simps)
qed

text \<open>
  Claim C2 as it was stated fails on redelivery. The job \<^verbatim>\<open>j1\<close> is \<^verbatim>\<open>completed\<close>;
  its task is run again, where the tools have meanwhile disappeared. The status leaves
  the terminal state for \<^verbatim>\<open>ongoing\<close> and ends as \<^verbatim>\<open>failed\<close>; the stored result and
  \<^verbatim>\<open>updated_at\<close> are overwritten.
\<close>

theorem redelivery_counterexample:
  "map_option status (db_done ''j1'') = Some ''completed''
   \<and> map_option status
        (hd (run_scan_task_commits db_done world_no_tools ''j1'' ''uploads/j1_extracted'' 6 7 8
               ''Traceback'') ''j1'')
        = Some ''ongoing''
   \<and> map_option status
        (run_scan_task db_done world_no_tools ''j1'' ''uploads/j1_extracted'' 6 7 8 ''Traceback'' ''j1'')
        = Some ''failed''
   \<and> map_option result
        (run_scan_task db_done world_no_tools ''j1'' ''uploads/j1_extracted'' 6 7 8 ''Traceback'' ''j1'')
        \<noteq> map_option result (db_done ''j1'')
   \<and> map_option updated_at (db_done ''j1'') = Some (Some 5)
   \<and> map_option updated_at
        (run_scan_task db_done world_no_tools ''j1'' ''uploads/j1_extracted'' 6 7 8 ''Traceback'' ''j1'')
        = Some (Some 7)"
proof -
  have l: "list_all (returned world_clean) (scan_cmds world_clean ''uploads/j1_extracted'')"
    by (simp add: world_clean_def scan_cmds_def returned_def demo_defs)
  have d: "db_done ''j1'' =
     Some \<lparr>job_id = ''j1'', filename = ''app.zip'', status = ''completed'',
           summary = Some ''Scan finished with 0 issues'',
           result = Some (dumps (JObj
             [(''static_code_analysis'',
                 JObj [(''bandit'', JObj [(''results'', JArr [])]),
                       (''semgrep'', JObj [(''results'', JArr [])])]),
              (''dependency_scan'', JObj [(''vulnerabilities_found'', JInt 0), (''details'', JArr [])]),
              (''coding_standards'', JArr [JArr []]),
              (''summary'', JStr ''Scan completed'')])),
           created_at = Some 1, updated_at = Some 5, completed_at = Some 4\<rparr>"
    by (simp add: db_done_def db_pending_def upload_project_def endswith_def task_defs
        scan_project_returned [OF l] scan_summary_def str_nat_0)
       (simp add: world_clean_def tool_value_def demo_defs)
  have s: "snd (scan_project world_no_tools ''uploads/j1_extracted'') =
        Inl (Exn FileNotFoundError ''[Errno 2] No such file or directory'')"
    by (simp add: world_no_tools_def scan_project_def run_bandit_def run_tool_def bind_run_def
        demo_defs)
  show ?thesis
    by (simp add: d s task_defs dumps_str_def escape_char_def)
qed

section \<open>Properties of the submission\<close>

subsection \<open>Uploads that are refused\<close>




section \<open>Properties of submissions and workers together\<close>

lemma join_length: "length x \<le> length (join sep (x # xs))"
  by (cases xs) auto

lemma dumps_obj_length: "kvs \<noteq> [] \<Longrightarrow> 2 < length (dumps (JObj kvs))"
proof (cases kvs)
  case Nil
  then show "kvs \<noteq> [] \<Longrightarrow> 2 < length (dumps (JObj kvs))" by simp
next
  case (Cons kv rest)
  let ?item = "\<lambda>kv. dumps_str (fst kv) @ '': '' @ dumps (snd kv)"
  have "2 \<le> length (?item kv)" by (simp add: dumps_str_def)
  also have "\<dots> \<le> length (join '', '' (?item kv # map ?item rest))" by (rule join_length)
  finally have "join '', '' (?item kv # map ?item rest) \<noteq> []" by auto
  then show ?thesis using Cons by simp
qed

lemma dumps_obj_not_empty:
  "kvs \<noteq> [] \<Longrightarrow> dumps (JObj kvs) \<noteq> [] \<and> dumps (JObj kvs) \<noteq> ''{}''"
  using dumps_obj_length [of kvs] by auto

lemma dumps_empty_obj: "dumps (JObj []) = ''{}''"
  by simp

lemma dumps_scan_project_not_empty:
  assumes "snd (scan_project w p) = Inr doc"
  shows "dumps doc \<noteq> [] \<and> dumps doc \<noteq> ''{}''"
proof -
  from scan_project_shape [OF assms] obtain kvs where "doc = JObj kvs" and "kvs \<noteq> []"
    by blast
  then show ?thesis using dumps_obj_not_empty [of kvs] by simp
qed

lemma finish_scan_row:
  assumes "d jid = Some job"
  shows "\<exists>job'. finish_scan d jid (snd (scan_project w p)) t1 t2 trace = d(jid \<mapsto> job')
           \<and> \<not> result_empty job'
           \<and> (status job' = ''completed'' \<and> completed_at job' \<noteq> None
                \<or> status job' = ''failed'' \<and> completed_at job' = completed_at job)"
proof (cases "snd (scan_project w p)")
  case (Inl e)
  have "dumps (JObj [(''error'', JStr (str_exn e)), (''trace'', JStr trace)]) \<noteq> []
      \<and> dumps (JObj [(''error'', JStr (str_exn e)), (''trace'', JStr trace)]) \<noteq> ''{}''"
    by (rule dumps_obj_not_empty) simp
  with assms Inl show ?thesis
    by (intro exI [of _ "job\<lparr>status := ''failed'',
                      result := Some (dumps (JObj [(''error'', JStr (str_exn e)),
                                                   (''trace'', JStr trace)])),
                      updated_at := Some t1\<rparr>"])
       (simp add: finish_scan_def result_empty_def dumps_empty_obj del: dumps.simps)
next
  case (Inr doc)
  with assms scan_summary_scan_project [OF Inr] dumps_scan_project_not_empty [OF Inr]
  show ?thesis
    by (intro exI [of _ "job\<lparr>status := ''completed'',
                      result := Some (dumps doc),
                      summary := Some ''Scan finished with 0 issues'',
                      completed_at := Some t1,
                      updated_at := Some t2\<rparr>"])
       (simp add: finish_scan_def result_empty_def dumps_empty_obj del: dumps.simps)
qed

lemma finish_scan_other:
  "k \<noteq> jid \<Longrightarrow> finish_scan d jid outcome t1 t2 trace k = d k"
  by (simp add: finish_scan_def split: option.splits sum.splits prod.splits)

lemma finish_scan_absent:
  "d jid = None \<Longrightarrow> finish_scan d jid outcome t1 t2 trace = d"
  by (simp add: finish_scan_def)

lemma mark_ongoing_other:
  "mark_ongoing d jid t0 = Some d' \<Longrightarrow> k \<noteq> jid \<Longrightarrow> d' k = d k"
  by (auto simp: mark_ongoing_def split: option.splits)

lemma upload_project_jobs:
  "fst (upload_project d file_filename io_error enqueue_error new_uuid t0 t1) = d
   \<or> (d new_uuid = None
      \<and> (\<exists>fname. fst (upload_project d file_filename io_error enqueue_error new_uuid t0 t1) =
            d(new_uuid \<mapsto> \<lparr>job_id = new_uuid, filename = fname, status = ''pending'',
                 summary = None, result = Some ''{}'', created_at = Some t0,
                 updated_at = Some t1, completed_at = None\<rparr>)))"
proof (cases "\<exists>fname. file_filename = Some fname \<and> fname \<noteq> [] \<and> endswith fname ''.zip''
                \<and> io_error = None \<and> d new_uuid = None")
  case False
  then have "fst (upload_project d file_filename io_error enqueue_error new_uuid t0 t1) = d"
    by (auto simp: upload_project_def split: option.splits)
  then show ?thesis by simp
next
  case True
  then obtain fname where f: "file_filename = Some fname" "fname \<noteq> []" "endswith fname ''.zip''"
    "io_error = None" "d new_uuid = None" by blast
  then have "fst (upload_project d file_filename io_error enqueue_error new_uuid t0 t1) =
            d(new_uuid \<mapsto> \<lparr>job_id = new_uuid, filename = fname, status = ''pending'',
                 summary = None, result = Some ''{}'', created_at = Some t0,
                 updated_at = Some t1, completed_at = None\<rparr>)"
    by (simp add: upload_project_def Let_def split: option.splits)
  with f(5) show ?thesis by blast
qed

lemma step_upload_jobs:
  "jobs (step s (Upload file_filename io_error enqueue_error new_uuid t0 t1)) =
     fst (upload_project (jobs s) file_filename io_error enqueue_error new_uuid t0 t1)"
  by (simp split: prod.splits)

lemma job_ok_upload:
  assumes "\<forall>k job. jobs s k = Some job \<longrightarrow> job_ok job"
    and "jobs (step s (Upload file_filename io_error enqueue_error new_uuid t0 t1)) jid = Some job"
  shows "job_ok job"
proof -
  let ?d = "fst (upload_project (jobs s) file_filename io_error enqueue_error new_uuid t0 t1)"
  from assms(2) have a: "?d jid = Some job" by (simp only: step_upload_jobs)
  from upload_project_jobs [of "jobs s" file_filename io_error enqueue_error new_uuid t0 t1]
  show ?thesis
  proof
    assume "?d = jobs s"
    with a assms(1) show ?thesis by simp
  next
    assume "jobs s new_uuid = None
      \<and> (\<exists>fname. ?d = (jobs s)(new_uuid \<mapsto> \<lparr>job_id = new_uuid, filename = fname,
             status = ''pending'', summary = None, result = Some ''{}'', created_at = Some t0,
             updated_at = Some t1, completed_at = None\<rparr>))"
    then obtain fname where d: "?d = (jobs s)(new_uuid \<mapsto> \<lparr>job_id = new_uuid,
             filename = fname, status = ''pending'', summary = None, result = Some ''{}'',
             created_at = Some t0, updated_at = Some t1, completed_at = None\<rparr>)"
      by blast
    show ?thesis
    proof (cases "jid = new_uuid")
      case True
      with a d have "job = \<lparr>job_id = new_uuid, filename = fname, status = ''pending'',
             summary = None, result = Some ''{}'', created_at = Some t0,
             updated_at = Some t1, completed_at = None\<rparr>"
        by simp
      then show ?thesis by (simp add: job_ok_def result_empty_def)
    next
      case False
      with a d assms(1) show ?thesis by simp
    qed
  qed
qed

lemma job_ok_deliver:
  assumes "\<forall>k job. jobs s k = Some job \<longrightarrow> job_ok job"
    and "jobs (step s (Deliver task t0)) jid = Some job"
  shows "job_ok job"
proof (cases "task \<in> set (queue s) \<and> jobs s (fst task) \<noteq> None")
  case False
  then have "step s (Deliver task t0) = s"
    by (auto simp: mark_ongoing_def split: option.splits)
  with assms show ?thesis by simp
next
  case True
  then obtain old where o: "jobs s (fst task) = Some old" by auto
  with True have st: "jobs (step s (Deliver task t0)) =
      (jobs s)(fst task \<mapsto> old\<lparr>status := ''ongoing'', updated_at := Some t0\<rparr>)"
    by (simp add: mark_ongoing_def)
  show ?thesis
  proof (cases "jid = fst task")
    case True
    with assms(2) st have j: "job = old\<lparr>status := ''ongoing'', updated_at := Some t0\<rparr>"
      by simp
    from assms(1) o have "job_ok old" by simp
    with j show ?thesis by (simp add: job_ok_def result_empty_def)
  next
    case False
    with assms st show ?thesis by simp
  qed
qed

lemma job_ok_finish:
  assumes "\<forall>k job. jobs s k = Some job \<longrightarrow> job_ok job"
    and "jobs (step s (Finish task w t1 t2 trace)) jid = Some job"
  shows "job_ok job"
proof (cases "task \<in> set (running s) \<and> jobs s (fst task) \<noteq> None")
  case False
  then have "jobs (step s (Finish task w t1 t2 trace)) = jobs s"
    by (auto simp: finish_scan_absent)
  with assms show ?thesis by simp
next
  case True
  then obtain old where o: "jobs s (fst task) = Some old" by auto
  from finish_scan_row [where d = "jobs s" and jid = "fst task", OF o, of w "snd task" t1 t2 trace]
  obtain job' where
    f: "finish_scan (jobs s) (fst task) (snd (scan_project w (snd task))) t1 t2 trace =
          (jobs s)(fst task \<mapsto> job')"
    and r: "\<not> result_empty job'"
    and st: "status job' = ''completed'' \<and> completed_at job' \<noteq> None
             \<or> status job' = ''failed'' \<and> completed_at job' = completed_at old"
    by blast
  from True f have js: "jobs (step s (Finish task w t1 t2 trace)) = (jobs s)(fst task \<mapsto> job')"
    by simp
  show ?thesis
  proof (cases "jid = fst task")
    case True
    with assms(2) js have "job = job'" by simp
    with r st show ?thesis by (auto simp: job_ok_def)
  next
    case False
    with assms js show ?thesis by simp
  qed
qed

lemma job_ok_step:
  assumes "\<forall>k job. jobs s k = Some job \<longrightarrow> job_ok job"
  shows "\<forall>k job. jobs (step s e) k = Some job \<longrightarrow> job_ok job"
proof (intro allI impI)
  fix k job
  assume a: "jobs (step s e) k = Some job"
  show "job_ok job"
  proof (cases e)
    case (Upload file_filename io_error enqueue_error new_uuid t0 t1)
    with a show ?thesis using job_ok_upload [OF assms] by blast
  next
    case (Deliver task t0)
    with a show ?thesis using job_ok_deliver [OF assms] by blast
  next
    case (Finish task w t1 t2 trace)
    with a show ?thesis using job_ok_finish [OF assms] by blast
  qed
qed

lemma job_ok_exec_from:
  "\<forall>k job. jobs s k = Some job \<longrightarrow> job_ok job \<Longrightarrow>
   \<forall>k job. jobs (exec_from s evs) k = Some job \<longrightarrow> job_ok job"
  unfolding exec_from_def
proof (induction evs arbitrary: s)
  case Nil
  then show ?case by simp
next
  case (Cons e es)
  from Cons.IH [OF job_ok_step [OF Cons.prems]] show ?case by simp
qed

lemma job_ok_exec: "jobs (exec evs) jid = Some job \<Longrightarrow> job_ok job"
  using job_ok_exec_from [of init evs] by (simp add: exec_def init_def)
lemma has_result_upload:
  "has_result (step s (Upload file_filename io_error enqueue_error new_uuid t0 t1)) jid
     \<longleftrightarrow> has_result s jid"
proof -
  let ?d = "fst (upload_project (jobs s) file_filename io_error enqueue_error new_uuid t0 t1)"
  from upload_project_jobs [of "jobs s" file_filename io_error enqueue_error new_uuid t0 t1]
  have "(case ?d jid of None \<Rightarrow> False | Some job \<Rightarrow> \<not> result_empty job)
      \<longleftrightarrow> (case jobs s jid of None \<Rightarrow> False | Some job \<Rightarrow> \<not> result_empty job)"
  proof
    assume "?d = jobs s"
    then show ?thesis by simp
  next
    assume "jobs s new_uuid = None
      \<and> (\<exists>fname. ?d = (jobs s)(new_uuid \<mapsto> \<lparr>job_id = new_uuid, filename = fname,
             status = ''pending'', summary = None, result = Some ''{}'', created_at = Some t0,
             updated_at = Some t1, completed_at = None\<rparr>))"
    then obtain fname where n: "jobs s new_uuid = None"
      and d: "?d = (jobs s)(new_uuid \<mapsto> \<lparr>job_id = new_uuid,
             filename = fname, status = ''pending'', summary = None, result = Some ''{}'',
             created_at = Some t0, updated_at = Some t1, completed_at = None\<rparr>)"
      by blast
    show ?thesis
      by (cases "jid = new_uuid") (simp_all add: d n result_empty_def)
  qed
  then show ?thesis
    by (simp only: has_result_def step_upload_jobs)
qed

lemma has_completed_at_upload:
  "has_completed_at (step s (Upload file_filename io_error enqueue_error new_uuid t0 t1)) jid
     \<longleftrightarrow> has_completed_at s jid"
proof -
  let ?d = "fst (upload_project (jobs s) file_filename io_error enqueue_error new_uuid t0 t1)"
  from upload_project_jobs [of "jobs s" file_filename io_error enqueue_error new_uuid t0 t1]
  have "(case ?d jid of None \<Rightarrow> False | Some job \<Rightarrow> completed_at job \<noteq> None)
      \<longleftrightarrow> (case jobs s jid of None \<Rightarrow> False | Some job \<Rightarrow> completed_at job \<noteq> None)"
  proof
    assume "?d = jobs s"
    then show ?thesis by simp
  next
    assume "jobs s new_uuid = None
      \<and> (\<exists>fname. ?d = (jobs s)(new_uuid \<mapsto> \<lparr>job_id = new_uuid, filename = fname,
             status = ''pending'', summary = None, result = Some ''{}'', created_at = Some t0,
             updated_at = Some t1, completed_at = None\<rparr>))"
    then obtain fname where n: "jobs s new_uuid = None"
      and d: "?d = (jobs s)(new_uuid \<mapsto> \<lparr>job_id = new_uuid,
             filename = fname, status = ''pending'', summary = None, result = Some ''{}'',
             created_at = Some t0, updated_at = Some t1, completed_at = None\<rparr>)"
      by blast
    show ?thesis
      by (cases "jid = new_uuid") (simp_all add: d n)
  qed
  then show ?thesis
    by (simp only: has_completed_at_def step_upload_jobs)
qed

lemma step_deliver_jobs:
  "jobs (step s (Deliver task t0)) jid =
     (case jobs s jid of
        None \<Rightarrow> None
      | Some job \<Rightarrow>
          if task \<in> set (queue s) \<and> jid = fst task
          then Some (job\<lparr>status := ''ongoing'', updated_at := Some t0\<rparr>)
          else Some job)"
  by (simp add: mark_ongoing_def split: option.splits)

lemma has_result_deliver:
  "has_result (step s (Deliver task t0)) jid \<longleftrightarrow> has_result s jid"
  by (simp only: has_result_def step_deliver_jobs)
     (simp add: result_empty_def split: option.splits)

lemma has_completed_at_deliver:
  "has_completed_at (step s (Deliver task t0)) jid \<longleftrightarrow> has_completed_at s jid"
  by (simp only: has_completed_at_def step_deliver_jobs)
     (simp split: option.splits)

lemma finish_scan_completed_at:
  assumes "d jid = Some job"
  shows "\<exists>job'. finish_scan d jid (snd (scan_project w p)) t1 t2 trace jid = Some job'
           \<and> (completed_at job' \<noteq> None \<longleftrightarrow>
                completed_at job \<noteq> None
                \<or> (case snd (scan_project w p) of Inl e \<Rightarrow> False | Inr doc \<Rightarrow> True))"
proof (cases "snd (scan_project w p)")
  case (Inl e)
  with assms show ?thesis
    by (simp add: finish_scan_def del: dumps.simps)
next
  case (Inr doc)
  with assms scan_summary_scan_project [OF Inr] show ?thesis
    by (simp add: finish_scan_def del: dumps.simps)
qed

lemma has_result_finish:
  "has_result (step s (Finish task w t1 t2 trace)) jid
     \<longleftrightarrow> has_result s jid \<or> finishes s (Finish task w t1 t2 trace) jid"
proof (cases "task \<in> set (running s) \<and> jobs s (fst task) \<noteq> None")
  case False
  then have "jobs (step s (Finish task w t1 t2 trace)) = jobs s"
    by (auto simp: finish_scan_absent)
  with False show ?thesis by (auto simp: has_result_def)
next
  case True
  then obtain old where o: "jobs s (fst task) = Some old" by auto
  from finish_scan_row [where d = "jobs s" and jid = "fst task", OF o, of w "snd task" t1 t2 trace]
  obtain job' where
    f: "finish_scan (jobs s) (fst task) (snd (scan_project w (snd task))) t1 t2 trace =
          (jobs s)(fst task \<mapsto> job')"
    and r: "\<not> result_empty job'"
    by blast
  from True f have js: "jobs (step s (Finish task w t1 t2 trace)) = (jobs s)(fst task \<mapsto> job')"
    by simp
  show ?thesis
  proof (cases "jid = fst task")
    case True
    with js r \<open>task \<in> set (running s) \<and> jobs s (fst task) \<noteq> None\<close> show ?thesis
      by (simp add: has_result_def)
  next
    case False
    with js show ?thesis
      by (auto simp: has_result_def)
  qed
qed

lemma has_completed_at_finish:
  "has_completed_at (step s (Finish task w t1 t2 trace)) jid
     \<longleftrightarrow> has_completed_at s jid \<or> completes s (Finish task w t1 t2 trace) jid"
proof (cases "task \<in> set (running s) \<and> jobs s (fst task) \<noteq> None")
  case False
  then have "jobs (step s (Finish task w t1 t2 trace)) = jobs s"
    by (auto simp: finish_scan_absent)
  with False show ?thesis by (auto simp: has_completed_at_def)
next
  case True
  then obtain old where o: "jobs s (fst task) = Some old" by auto
  show ?thesis
  proof (cases "jid = fst task")
    case False
    with True have "jobs (step s (Finish task w t1 t2 trace)) jid = jobs s jid"
      by (simp add: finish_scan_other)
    with False show ?thesis
      by (auto simp: has_completed_at_def)
  next
    case jt: True
    from finish_scan_completed_at [where d = "jobs s" and jid = "fst task", OF o,
        of w "snd task" t1 t2 trace]
    obtain job' where
      f: "finish_scan (jobs s) (fst task) (snd (scan_project w (snd task))) t1 t2 trace (fst task)
            = Some job'"
      and c: "completed_at job' \<noteq> None \<longleftrightarrow>
                completed_at old \<noteq> None
                \<or> (case snd (scan_project w (snd task)) of Inl e \<Rightarrow> False | Inr doc \<Rightarrow> True)"
      by blast
    from True jt f have "jobs (step s (Finish task w t1 t2 trace)) jid = Some job'"
      by simp
    with True jt o c show ?thesis
      by (simp add: has_completed_at_def)
  qed
qed

lemma has_result_step:
  "has_result (step s e) jid \<longleftrightarrow> has_result s jid \<or> finishes s e jid"
  by (cases e) (simp_all only: has_result_upload has_result_deliver has_result_finish
      finishes.simps simp_thms)

lemma has_completed_at_step:
  "has_completed_at (step s e) jid \<longleftrightarrow> has_completed_at s jid \<or> completes s e jid"
  by (cases e) (simp_all only: has_completed_at_upload has_completed_at_deliver
      has_completed_at_finish completes.simps simp_thms)

lemma has_result_exec_from:
  "has_result (exec_from s evs) jid \<longleftrightarrow> has_result s jid \<or> ever finishes s evs jid"
  unfolding exec_from_def
proof (induction evs arbitrary: s)
  case Nil
  then show ?case by simp
next
  case (Cons e es)
  show ?case
    using Cons.IH [of "step s e"] has_result_step [of s e jid] by auto
qed

lemma has_completed_at_exec_from:
  "has_completed_at (exec_from s evs) jid
     \<longleftrightarrow> has_completed_at s jid \<or> ever completes s evs jid"
  unfolding exec_from_def
proof (induction evs arbitrary: s)
  case Nil
  then show ?case by simp
next
  case (Cons e es)
  show ?case
    using Cons.IH [of "step s e"] has_completed_at_step [of s e jid] by auto
qed

lemma has_result_exec:
  "jobs (exec evs) jid = Some job \<Longrightarrow> \<not> result_empty job \<longleftrightarrow> ever finishes init evs jid"
  using has_result_exec_from [of init evs jid]
  by (simp add: exec_def has_result_def init_def)

lemma has_completed_at_exec:
  "jobs (exec evs) jid = Some job \<Longrightarrow> completed_at job \<noteq> None \<longleftrightarrow> ever completes init evs jid"
  using has_completed_at_exec_from [of init evs jid]
  by (simp add: exec_def has_completed_at_def init_def)

lemma scan_project_world_clean:
  "snd (scan_project world_clean ''uploads/j1_extracted'') =
     Inr (JObj
       [(''static_code_analysis'',
           JObj [(''bandit'', JObj [(''results'', JArr [])]),
                 (''semgrep'', JObj [(''results'', JArr [])])]),
        (''dependency_scan'', JObj [(''vulnerabilities_found'', JInt 0), (''details'', JArr [])]),
        (''coding_standards'', JArr [JArr []]),
        (''summary'', JStr ''Scan completed'')])"
proof -
  have l: "list_all (returned world_clean) (scan_cmds world_clean ''uploads/j1_extracted'')"
    by (simp add: world_clean_def scan_cmds_def returned_def demo_defs)
  show ?thesis
    by (simp add: scan_project_returned [OF l]) (simp add: world_clean_def tool_value_def demo_defs)
qed

lemma scan_project_world_no_tools:
  "snd (scan_project world_no_tools p) =
     Inl (Exn FileNotFoundError ''[Errno 2] No such file or directory'')"
  by (simp add: world_no_tools_def scan_project_def run_bandit_def run_tool_def bind_run_def
      demo_defs)

lemma exec_events_done:
  "jobs (exec events_done) ''j1'' =
     Some \<lparr>job_id = ''j1'', filename = ''app.zip'', status = ''completed'',
           summary = Some ''Scan finished with 0 issues'',
           result = Some (dumps (JObj
             [(''static_code_analysis'',
                 JObj [(''bandit'', JObj [(''results'', JArr [])]),
                       (''semgrep'', JObj [(''results'', JArr [])])]),
              (''dependency_scan'', JObj [(''vulnerabilities_found'', JInt 0), (''details'', JArr [])]),
              (''coding_standards'', JArr [JArr []]),
              (''summary'', JStr ''Scan completed'')])),
           created_at = Some 1, updated_at = Some 5, completed_at = Some 4\<rparr>"
  by (simp add: exec_def exec_from_def events_done_def init_def upload_project_def endswith_def
      mark_ongoing_def finish_scan_def scan_project_world_clean scan_summary_def str_nat_0
      del: dumps.simps)

lemma exec_events_failed:
  "jobs (exec events_failed) ''j1'' =
     Some \<lparr>job_id = ''j1'', filename = ''app.zip'', status = ''failed'', summary = None,
           result = Some (dumps (JObj [(''error'', JStr ''[Errno 2] No such file or directory''),
                                       (''trace'', JStr ''Traceback'')])),
           created_at = Some 1, updated_at = Some 4, completed_at = None\<rparr>"
  by (simp add: exec_def exec_from_def events_failed_def init_def upload_project_def endswith_def
      mark_ongoing_def finish_scan_def scan_project_world_no_tools del: dumps.simps)


lemma exec_events_uploaded:
  "jobs (exec events_uploaded) ''j1'' =
     Some \<lparr>job_id = ''j1'', filename = ''app.zip'', status = ''pending'', summary = None,
           result = Some ''{}'', created_at = Some 1, updated_at = Some 2, completed_at = None\<rparr>"
  by (simp add: exec_def exec_from_def events_uploaded_def init_def upload_project_def
      endswith_def)

lemma exec_events_redelivered:
  "jobs (exec events_redelivered) ''j1'' =
     Some \<lparr>job_id = ''j1'', filename = ''app.zip'', status = ''ongoing'',
           summary = Some ''Scan finished with 0 issues'',
           result = Some (dumps (JObj
             [(''static_code_analysis'',
                 JObj [(''bandit'', JObj [(''results'', JArr [])]),
                       (''semgrep'', JObj [(''results'', JArr [])])]),
              (''dependency_scan'', JObj [(''vulnerabilities_found'', JInt 0), (''details'', JArr [])]),
              (''coding_standards'', JArr [JArr []]),
              (''summary'', JStr ''Scan completed'')])),
           created_at = Some 1, updated_at = Some 6, completed_at = Some 4\<rparr>"
  by (simp add: exec_def exec_from_def events_redelivered_def init_def upload_project_def
      endswith_def mark_ongoing_def finish_scan_def scan_project_world_clean scan_summary_def
      str_nat_0 del: dumps.simps)

lemma ever_finishes_events_done: "ever finishes init events_done ''j1''"
  by (simp add: events_done_def init_def upload_project_def endswith_def mark_ongoing_def)

lemma ever_completes_events_done: "ever completes init events_done ''j1''"
  by (simp add: events_done_def init_def upload_project_def endswith_def mark_ongoing_def
      scan_project_world_clean)

lemma never_finishes_events_uploaded: "\<not> ever finishes init events_uploaded ''j1''"
  by (simp add: events_uploaded_def)

lemma never_completes_events_failed: "\<not> ever completes init events_failed ''j1''"
  by (simp add: events_failed_def init_def upload_project_def endswith_def mark_ongoing_def
      scan_project_world_no_tools)

subsection \<open>The result and the status\<close>

text \<open>
  Claim C4, as the code has it. In every state that uploads, deliveries and executions
  reach, a task being delivered any number of times, a job's result is non-empty exactly
  when an execution of its task has made its second commit. So the result is non-empty
  whenever the status is \<^verbatim>\<open>completed\<close> or \<^verbatim>\<open>failed\<close>; it is the serialised empty
  object of the upload while the job is \<^verbatim>\<open>pending\<close>, and whenever it is empty; and no
  status but \<^verbatim>\<open>pending\<close>, \<^verbatim>\<open>ongoing\<close> (the executor's label for the running state),
  \<^verbatim>\<open>completed\<close> and \<^verbatim>\<open>failed\<close> occurs. A job that a repeated delivery sets to
  \<^verbatim>\<open>ongoing\<close> again keeps the non-empty result of the earlier execution.
\<close>

theorem result_nonempty_iff_finished:
  assumes "jobs (exec evs) jid = Some job"
  shows "(\<not> result_empty job \<longleftrightarrow> ever finishes init evs jid)
       \<and> (status job = ''completed'' \<or> status job = ''failed'' \<longrightarrow> \<not> result_empty job)
       \<and> (status job = ''pending'' \<longrightarrow>
            result job = Some (dumps (JObj [])) \<and> \<not> ever finishes init evs jid)
       \<and> (result_empty job \<longrightarrow> result job = Some (dumps (JObj [])))
       \<and> (status job = ''pending'' \<or> status job = ''ongoing''
            \<or> status job = ''completed'' \<or> status job = ''failed'')"
proof -
  from job_ok_exec [OF assms] have ok: "job_ok job" .
  note h = has_result_exec [OF assms]
  have e: "dumps (JObj []) = ''{}''" by simp
  from ok have p: "status job = ''pending'' \<longrightarrow> result_empty job"
    by (simp add: job_ok_def result_empty_def)
  from ok h p show ?thesis
    unfolding e by (auto simp: job_ok_def)
qed

text \<open>
  An instance: the job whose scan has ended has a result, and the job that was only
  uploaded has the empty object.
\<close>

theorem result_nonempty_iff_finished_witness:
  "ever finishes init events_done ''j1''
   \<and> map_option status (jobs (exec events_done) ''j1'') = Some ''completed''
   \<and> map_option result_empty (jobs (exec events_done) ''j1'') = Some False
   \<and> \<not> ever finishes init events_uploaded ''j1''
   \<and> map_option status (jobs (exec events_uploaded) ''j1'') = Some ''pending''
   \<and> map_option result (jobs (exec events_uploaded) ''j1'') = Some (Some ''{}'')"
  using result_nonempty_iff_finished [OF exec_events_done]
    result_nonempty_iff_finished [OF exec_events_uploaded]
    ever_finishes_events_done never_finishes_events_uploaded
  by (simp add: exec_events_done exec_events_uploaded del: dumps.simps)

text \<open>
  Claim C4 as it was stated fails on redelivery: the task of the job \<^verbatim>\<open>j1\<close>, which is
  \<^verbatim>\<open>completed\<close>, is delivered again, and after the first commit of the new execution
  the status is \<^verbatim>\<open>ongoing\<close>, which is not terminal, and the result is not empty.
\<close>

theorem ongoing_with_result_counterexample:
  "map_option status (jobs (exec events_redelivered) ''j1'') = Some ''ongoing''
   \<and> map_option result_empty (jobs (exec events_redelivered) ''j1'') = Some False"
proof -
  have "\<not> result_empty
     \<lparr>job_id = ''j1'', filename = ''app.zip'', status = ''ongoing'',
           summary = Some ''Scan finished with 0 issues'',
           result = Some (dumps (JObj
             [(''static_code_analysis'',
                 JObj [(''bandit'', JObj [(''results'', JArr [])]),
                       (''semgrep'', JObj [(''results'', JArr [])])]),
              (''dependency_scan'', JObj [(''vulnerabilities_found'', JInt 0), (''details'', JArr [])]),
              (''coding_standards'', JArr [JArr []]),
              (''summary'', JStr ''Scan completed'')])),
           created_at = Some 1, updated_at = Some 6, completed_at = Some 4\<rparr>"
    using has_result_exec [OF exec_events_redelivered]
    by (simp add: events_redelivered_def init_def upload_project_def endswith_def
        mark_ongoing_def del: dumps.simps)
  then show ?thesis
    by (simp add: exec_events_redelivered del: dumps.simps)
qed

subsection \<open>The completion time and the status\<close>

text \<open>
  Claim C3, as the code has it. In every state that uploads, deliveries and executions
  reach, a task being delivered any number of times, \<^verbatim>\<open>completed_at\<close> is set exactly when
  an execution of the job's task has ended with the scan returning, that is, when the job
  has been \<^verbatim>\<open>completed\<close> at least once. So it is set whenever the status is
  \<^verbatim>\<open>completed\<close> and unset while the job is \<^verbatim>\<open>pending\<close>; a job that is \<^verbatim>\<open>failed\<close>
  without ever having completed has it unset, because the failure branch does not write
  it; and a job that had completed keeps it when a repeated delivery sets the job to
  \<^verbatim>\<open>ongoing\<close> or \<^verbatim>\<open>failed\<close>.
\<close>

theorem completed_at_iff_completed_once:
  assumes "jobs (exec evs) jid = Some job"
  shows "(completed_at job \<noteq> None \<longleftrightarrow> ever completes init evs jid)
       \<and> (status job = ''completed'' \<longrightarrow> completed_at job \<noteq> None)
       \<and> (status job = ''pending'' \<longrightarrow> completed_at job = None)
       \<and> (status job = ''failed'' \<and> \<not> ever completes init evs jid \<longrightarrow> completed_at job = None)"
proof -
  from job_ok_exec [OF assms] have ok: "job_ok job" .
  note h = has_completed_at_exec [OF assms]
  from ok h show ?thesis
    by (auto simp: job_ok_def)
qed

text \<open>
  An instance: the job whose scan returned has a completion time, and the job whose only
  scan raised has none.
\<close>

theorem completed_at_iff_completed_once_witness:
  "ever completes init events_done ''j1''
   \<and> map_option status (jobs (exec events_done) ''j1'') = Some ''completed''
   \<and> map_option completed_at (jobs (exec events_done) ''j1'') = Some (Some 4)
   \<and> \<not> ever completes init events_failed ''j1''
   \<and> map_option completed_at (jobs (exec events_failed) ''j1'') = Some None"
  using completed_at_iff_completed_once [OF exec_events_done]
    completed_at_iff_completed_once [OF exec_events_failed]
    ever_completes_events_done never_completes_events_failed
  by (simp add: exec_events_done exec_events_failed del: dumps.simps)

text \<open>
  Claim C3 as it was stated fails in both directions. Where the scan raises, the job ends
  with the status \<^verbatim>\<open>failed\<close> and without \<^verbatim>\<open>completed_at\<close>. Where the task of a
  completed job is delivered again, the job is \<^verbatim>\<open>ongoing\<close> and has \<^verbatim>\<open>completed_at\<close>.
\<close>

theorem completed_at_counterexample:
  "map_option status (jobs (exec events_failed) ''j1'') = Some ''failed''
   \<and> map_option completed_at (jobs (exec events_failed) ''j1'') = Some None
   \<and> map_option status (jobs (exec events_redelivered) ''j1'') = Some ''ongoing''
   \<and> map_option completed_at (jobs (exec events_redelivered) ''j1'') = Some (Some 4)"
  by (simp add: exec_events_failed exec_events_redelivered del: dumps.simps)

section \<open>Where the code misses the specification\<close>

subsection \<open>The summary line counts no finding\<close>

text \<open>
  Claim C8 at a concrete input. Bandit reports three findings; the task completes and
  stores the document with the three findings, and its summary line reads
  \<^verbatim>\<open>Scan finished with 0 issues\<close>: the line counts the entries of a key
  \<^verbatim>\<open>issues\<close>, which \<^verbatim>\<open>scan_project\<close> never writes.
\<close>

theorem summary_counts_no_issue:
  "snd (scan_project world_medium3 ''uploads/j1_extracted'') =
     Inr (JObj
       [(''static_code_analysis'',
           JObj [(''bandit'',
                    JObj [(''results'', JArr [JObj [(''issue_severity'', JStr ''MEDIUM'')],
                                              JObj [(''issue_severity'', JStr ''MEDIUM'')],
                                              JObj [(''issue_severity'', JStr ''MEDIUM'')]])]),
                 (''semgrep'', JObj [(''results'', JArr [])])]),
        (''dependency_scan'', JObj [(''vulnerabilities_found'', JInt 0), (''details'', JArr [])]),
        (''coding_standards'', JArr [JArr []]),
        (''summary'', JStr ''Scan completed'')])
   \<and> map_option status
        (run_scan_task db_pending world_medium3 ''j1'' ''uploads/j1_extracted'' 3 4 5 [] ''j1'')
        = Some ''completed''
   \<and> map_option summary
        (run_scan_task db_pending world_medium3 ''j1'' ''uploads/j1_extracted'' 3 4 5 [] ''j1'')
        = Some (Some ''Scan finished with 0 issues'')"
proof -
  have l: "list_all (returned world_medium3) (scan_cmds world_medium3 ''uploads/j1_extracted'')"
    by (simp add: world_medium3_def scan_cmds_def returned_def demo_defs)
  have s: "snd (scan_project world_medium3 ''uploads/j1_extracted'') =
     Inr (JObj
       [(''static_code_analysis'',
           JObj [(''bandit'',
                    JObj [(''results'', JArr [JObj [(''issue_severity'', JStr ''MEDIUM'')],
                                              JObj [(''issue_severity'', JStr ''MEDIUM'')],
                                              JObj [(''issue_severity'', JStr ''MEDIUM'')]])]),
                 (''semgrep'', JObj [(''results'', JArr [])])]),
        (''dependency_scan'', JObj [(''vulnerabilities_found'', JInt 0), (''details'', JArr [])]),
        (''coding_standards'', JArr [JArr []]),
        (''summary'', JStr ''Scan completed'')])"
    by (simp add: scan_project_returned [OF l])
       (simp add: world_medium3_def tool_value_def demo_defs)
  show ?thesis
    by (simp add: s db_pending_def upload_project_def endswith_def task_defs scan_summary_def
        str_nat_0 del: dumps.simps)
qed

subsection \<open>The score leaves the dependency audit out\<close>

text \<open>
  Claim C5 at a concrete input. pip-audit reports a vulnerable dependency and the static
  scanners report nothing. The document of \<^verbatim>\<open>scan_project\<close> holds the report under
  \<^verbatim>\<open>dependency_scan\<close>; the report generator looks under
  \<^verbatim>\<open>dependency_analysis\<close>, finds no issue from the dependency audit, and the score is 10.
  Three findings of medium severity from bandit and no manifest give the score 7.
\<close>

theorem report_score_without_dependency_audit:
  "snd (scan_project world_vulnerable ''proj'') =
     Inr (JObj
       [(''static_code_analysis'',
           JObj [(''bandit'', JObj [(''results'', JArr [])]),
                 (''semgrep'', JObj [(''results'', JArr [])])]),
        (''dependency_scan'',
           JObj [(''dependencies'',
                  JArr [JObj [(''name'', JStr ''django''), (''version'', JStr ''1.2''),
                              (''vulns'', JArr [JObj [(''id'', JStr ''PYSEC-2021-98'')]])]])]),
        (''coding_standards'', JArr [JArr []]),
        (''summary'', JStr ''Scan completed'')])
   \<and> bind_exn (snd (scan_project world_vulnerable ''proj''))
        (\<lambda>doc. get3 doc ''dependency_analysis'' ''pip_audit'' ''vulnerabilities'') = Inr (JArr [])
   \<and> bind_exn (snd (scan_project world_vulnerable ''proj'')) report_score = Inr 10
   \<and> bind_exn (snd (scan_project world_medium3 ''proj'')) report_score = Inr 7"
proof -
  have l: "list_all (returned world_vulnerable) (scan_cmds world_vulnerable ''proj'')"
    by (simp add: world_vulnerable_def scan_cmds_def returned_def demo_defs)
  have s: "snd (scan_project world_vulnerable ''proj'') =
     Inr (JObj
       [(''static_code_analysis'',
           JObj [(''bandit'', JObj [(''results'', JArr [])]),
                 (''semgrep'', JObj [(''results'', JArr [])])]),
        (''dependency_scan'',
           JObj [(''dependencies'',
                  JArr [JObj [(''name'', JStr ''django''), (''version'', JStr ''1.2''),
                              (''vulns'', JArr [JObj [(''id'', JStr ''PYSEC-2021-98'')]])]])]),
        (''coding_standards'', JArr [JArr []]),
        (''summary'', JStr ''Scan completed'')])"
    by (simp add: scan_project_returned [OF l])
       (simp add: world_vulnerable_def tool_value_def demo_defs)
  have l3: "list_all (returned world_medium3) (scan_cmds world_medium3 ''proj'')"
    by (simp add: world_medium3_def scan_cmds_def returned_def demo_defs)
  have s3: "snd (scan_project world_medium3 ''proj'') =
     Inr (JObj
       [(''static_code_analysis'',
           JObj [(''bandit'',
                    JObj [(''results'', JArr [JObj [(''issue_severity'', JStr ''MEDIUM'')],
                                              JObj [(''issue_severity'', JStr ''MEDIUM'')],
                                              JObj [(''issue_severity'', JStr ''MEDIUM'')]])]),
                 (''semgrep'', JObj [(''results'', JArr [])])]),
        (''dependency_scan'', JObj [(''vulnerabilities_found'', JInt 0), (''details'', JArr [])]),
        (''coding_standards'', JArr [JArr []]),
        (''summary'', JStr ''Scan completed'')])"
    by (simp add: scan_project_returned [OF l3])
       (simp add: world_medium3_def tool_value_def demo_defs)
  show ?thesis
    by (simp add: s s3 bind_exn_def get3_def report_score_def security_score_def)
qed

section \<open>Further properties\<close>

lemma count_severity_dicts:
  "list_all is_dict rs \<Longrightarrow>
   count_severity rs sev = Inr (length (filter (has_severity sev) rs))"
proof (induction rs)
  case Nil
  then show ?case by simp
next
  case (Cons r rs)
  then obtain kvs where "r = JObj kvs" by (cases r) auto
  with Cons show ?case
    by (simp add: bind_exn_def has_severity_def)
qed

text \<open>
  The score of a document whose three lists of findings are lists, bandit's findings
  being dictionaries: ten, less three for each bandit finding of severity \<^verbatim>\<open>HIGH\<close>, one
  for each of severity \<^verbatim>\<open>MEDIUM\<close> and one half for each other finding, cut to the
  range from 0 to 10.
\<close>

theorem report_score_formula:
  assumes "get3 doc ''static_code_analysis'' ''bandit'' ''results'' = Inr (JArr bs)"
    and "get3 doc ''static_code_analysis'' ''semgrep'' ''results'' = Inr (JArr ss)"
    and "get3 doc ''dependency_analysis'' ''pip_audit'' ''vulnerabilities'' = Inr (JArr ps)"
    and "list_all is_dict bs"
  shows "report_score doc =
           Inr (max 0 (min 10
             (10 - 3 * of_nat (length (filter (has_severity ''HIGH'') bs))
                 - of_nat (length (filter (has_severity ''MEDIUM'') bs))
                 - (of_nat (length bs + length ss + length ps)
                      - of_nat (length (filter (has_severity ''HIGH'') bs))
                      - of_nat (length (filter (has_severity ''MEDIUM'') bs))) / 2)))"
  using assms
  by (simp add: report_score_def bind_exn_def count_severity_dicts security_score_def)

text \<open>An instance: three bandit findings of medium severity and nothing else give 7.\<close>

theorem report_score_formula_witness:
  "list_all is_dict [JObj [(''issue_severity'', JStr ''MEDIUM'')],
                     JObj [(''issue_severity'', JStr ''MEDIUM'')],
                     JObj [(''issue_severity'', JStr ''MEDIUM'')]]
   \<and> report_score (JObj
       [(''static_code_analysis'',
           JObj [(''bandit'',
                    JObj [(''results'', JArr [JObj [(''issue_severity'', JStr ''MEDIUM'')],
                                              JObj [(''issue_severity'', JStr ''MEDIUM'')],
                                              JObj [(''issue_severity'', JStr ''MEDIUM'')]])]),
                 (''semgrep'', JObj [(''results'', JArr [])])]),
        (''dependency_scan'', JObj [(''vulnerabilities_found'', JInt 0), (''details'', JArr [])]),
        (''coding_standards'', JArr [JArr []]),
        (''summary'', JStr ''Scan completed'')]) = Inr 7"
proof -
  let ?bs = "[JObj [(''issue_severity'', JStr ''MEDIUM'')],
              JObj [(''issue_severity'', JStr ''MEDIUM'')],
              JObj [(''issue_severity'', JStr ''MEDIUM'')]]"
  let ?doc = "JObj
       [(''static_code_analysis'',
           JObj [(''bandit'', JObj [(''results'', JArr ?bs)]),
                 (''semgrep'', JObj [(''results'', JArr [])])]),
        (''dependency_scan'', JObj [(''vulnerabilities_found'', JInt 0), (''details'', JArr [])]),
        (''coding_standards'', JArr [JArr []]),
        (''summary'', JStr ''Scan completed'')]"
  have 1: "get3 ?doc ''static_code_analysis'' ''bandit'' ''results'' = Inr (JArr ?bs)"
    by (simp add: get3_def bind_exn_def)
  have 2: "get3 ?doc ''static_code_analysis'' ''semgrep'' ''results'' = Inr (JArr [])"
    by (simp add: get3_def bind_exn_def)
  have 3: "get3 ?doc ''dependency_analysis'' ''pip_audit'' ''vulnerabilities'' = Inr (JArr [])"
    by (simp add: get3_def bind_exn_def)
  have 4: "list_all is_dict ?bs" by simp
  show ?thesis
    using 4 report_score_formula [OF 1 2 3 4] by (simp add: has_severity_def)
qed

text \<open>
  Whatever \<^verbatim>\<open>scan_project\<close> returns, the report generator finds no dependency finding in
  it: the key it reads is not a key of the document.
\<close>

theorem dependency_audit_not_scored:
  assumes "snd (scan_project w p) = Inr doc"
  shows "get3 doc ''dependency_analysis'' ''pip_audit'' ''vulnerabilities'' = Inr (JArr [])"
  using scan_project_shape [OF assms] by (auto simp: get3_def bind_exn_def)

text \<open>An instance: the scan in which pip-audit reports a vulnerable dependency.\<close>

theorem dependency_audit_not_scored_witness:
  "(\<exists>doc. snd (scan_project world_vulnerable ''proj'') = Inr doc
          \<and> py_get doc ''dependency_scan'' JNull \<noteq> Inr JNull
          \<and> get3 doc ''dependency_analysis'' ''pip_audit'' ''vulnerabilities'' = Inr (JArr []))"
proof -
  have l: "list_all (returned world_vulnerable) (scan_cmds world_vulnerable ''proj'')"
    by (simp add: world_vulnerable_def scan_cmds_def returned_def demo_defs)
  have s: "snd (scan_project world_vulnerable ''proj'') =
     Inr (JObj
       [(''static_code_analysis'',
           JObj [(''bandit'', JObj [(''results'', JArr [])]),
                 (''semgrep'', JObj [(''results'', JArr [])])]),
        (''dependency_scan'',
           JObj [(''dependencies'',
                  JArr [JObj [(''name'', JStr ''django''), (''version'', JStr ''1.2''),
                              (''vulns'', JArr [JObj [(''id'', JStr ''PYSEC-2021-98'')]])]])]),
        (''coding_standards'', JArr [JArr []]),
        (''summary'', JStr ''Scan completed'')])"
    by (simp add: scan_project_returned [OF l])
       (simp add: world_vulnerable_def tool_value_def demo_defs)
  show ?thesis
    using dependency_audit_not_scored [OF s] by (simp add: s)
qed

text \<open>
  When the job is found and \<^verbatim>\<open>scan_project\<close> returns a document, the task ends with the
  job's row changed in five columns: the status is \<^verbatim>\<open>completed\<close>, the result is the
  serialised document, \<^verbatim>\<open>completed_at\<close> and \<^verbatim>\<open>updated_at\<close> are the two clock
  readings, and the summary is \<^verbatim>\<open>Scan finished with 0 issues\<close>, whatever the document
  holds.
\<close>

theorem success_path_writes:
  assumes "d jid = Some job" and "snd (scan_project w extract_path) = Inr doc"
  shows "run_scan_task d w jid extract_path ts tc tu trace =
           d(jid \<mapsto> job\<lparr>status := ''completed'',
                          result := Some (dumps doc),
                          summary := Some ''Scan finished with 0 issues'',
                          completed_at := Some tc,
                          updated_at := Some tu\<rparr>)"
  using assms scan_summary_scan_project [OF assms(2)]
  by (simp add: task_defs del: dumps.simps)

text \<open>An instance: the task of the uploaded job where no tool finds anything.\<close>

theorem success_path_writes_witness:
  "map_option status
     (run_scan_task db_pending world_clean ''j1'' ''uploads/j1_extracted'' 3 4 5 [] ''j1'')
     = Some ''completed''
   \<and> map_option summary
        (run_scan_task db_pending world_clean ''j1'' ''uploads/j1_extracted'' 3 4 5 [] ''j1'')
        = Some (Some ''Scan finished with 0 issues'')
   \<and> map_option completed_at
        (run_scan_task db_pending world_clean ''j1'' ''uploads/j1_extracted'' 3 4 5 [] ''j1'')
        = Some (Some 4)"
proof -
  have j: "db_pending ''j1'' =
     Some \<lparr>job_id = ''j1'', filename = ''app.zip'', status = ''pending'', summary = None,
           result = Some ''{}'', created_at = Some 1, updated_at = Some 2, completed_at = None\<rparr>"
    by (simp add: db_pending_def upload_project_def endswith_def)
  show ?thesis
    using success_path_writes [where d = db_pending and jid = "''j1''" and ts = 3 and tc = 4
        and tu = 5 and trace = "[]", OF j scan_project_world_clean]
    by (simp del: dumps.simps)
qed

end
